theory Spec2Isabelle
  imports Main "HOL-Library.AList"
begin

section \<open>JavaScript strings, numbers and objects\<close>

text \<open>
  A JavaScript string is a sequence of UTF-16 code units. The model uses \<open>string\<close>
  (a list of 8-bit characters); a character stands for the code unit of the same number,
  so the model covers the texts whose code units lie in U+0000..U+00FF. In that range
  \<open>String.prototype.trim\<close> removes TAB, LF, VT, FF, CR, SPACE and NBSP, and
  \<open>toLowerCase\<close> maps A..Z and U+00C0..U+00DE (without U+00D7) to the code unit 32
  higher, one code unit at a time.
\<close>

definition isWhiteSpace :: "char \<Rightarrow> bool" where
  "isWhiteSpace c =
     (c \<in> {CHR 0x09, CHR 0x0A, CHR 0x0B, CHR 0x0C, CHR 0x0D, CHR 0x20, CHR 0xA0})"

definition trim :: "string \<Rightarrow> string" where
  "trim s = rev (dropWhile isWhiteSpace (rev (dropWhile isWhiteSpace s)))"

text \<open>
  \<open>s.split(sep)\<close> for a separator of one code unit, as a scan from the left: \<open>cur\<close> is
  the piece being read. The result is never empty; \<open>\<close> gives \<open>[]\<close>.
\<close>

fun split_from :: "char \<Rightarrow> string \<Rightarrow> string \<Rightarrow> string list" where
  "split_from sep cur [] = [cur]"
| "split_from sep cur (c # cs) =
     (if c = sep then cur # split_from sep [] cs else split_from sep (cur @ [c]) cs)"

definition split_on :: "char \<Rightarrow> string \<Rightarrow> string list" where
  "split_on sep s = split_from sep [] s"

text \<open>\<open>s.replace(/"/g, '')\<close>: every double quote is dropped.\<close>

definition remove_dquotes :: "string \<Rightarrow> string" where
  "remove_dquotes s = filter (\<lambda>c. c \<noteq> CHR 0x22) s"

definition lower_char :: "char \<Rightarrow> char" where
  "lower_char c =
     (let n = (of_char c :: nat)
      in if (65 \<le> n \<and> n \<le> 90) \<or> (192 \<le> n \<and> n \<le> 222 \<and> n \<noteq> 215)
         then char_of (n + 32) else c)"

definition toLowerCase :: "string \<Rightarrow> string" where
  "toLowerCase s = map lower_char s"

text \<open>\<open>s.includes(pat)\<close>: \<open>pat\<close> occurs in \<open>s\<close> as a contiguous run.\<close>

fun includes_str :: "string \<Rightarrow> string \<Rightarrow> bool" where
  "includes_str [] pat = (pat = [])"
| "includes_str (c # cs) pat = (take (length pat) (c # cs) = pat \<or> includes_str cs pat)"

text \<open>Template literals print a non-negative integer in decimal.\<close>

definition digit_char :: "nat \<Rightarrow> char" where
  "digit_char d = char_of (48 + d)"

function show_nat :: "nat \<Rightarrow> string" where
  "show_nat n = (if n < 10 then [digit_char n] else show_nat (n div 10) @ [digit_char (n mod 10)])"
  by pat_completeness auto
termination
  by (relation "measure (\<lambda>n. n)") auto

declare show_nat.simps [simp del]

text \<open>\<open>xs.indexOf(x)\<close> is the first position of \<open>x\<close>, or -1; \<open>xs[i]\<close> is undefined out of range.\<close>

fun indexOf_from :: "'a \<Rightarrow> 'a list \<Rightarrow> int \<Rightarrow> int" where
  "indexOf_from x [] i = - 1"
| "indexOf_from x (y # ys) i = (if y = x then i else indexOf_from x ys (i + 1))"

definition indexOf :: "'a list \<Rightarrow> 'a \<Rightarrow> int" where
  "indexOf xs x = indexOf_from x xs 0"

definition at_index :: "'a list \<Rightarrow> int \<Rightarrow> 'a option" where
  "at_index xs i = (if 0 \<le> i \<and> i < int (length xs) then Some (xs ! nat i) else None)"

text \<open>\<open>xs.slice(b, e)\<close> for \<open>0 \<le> b \<le> e\<close>.\<close>

definition slice :: "nat \<Rightarrow> nat \<Rightarrow> 'a list \<Rightarrow> 'a list" where
  "slice b e xs = take (e - b) (drop b xs)"

text \<open>
  Object literals sent to and received from the backend are association lists from
  property names to values, in insertion order; assignment to a property is
  \<open>AList.update\<close>. A missing property reads as \<open>Undefined\<close>.
\<close>

datatype jsval = Str string | Num int | Null | Undefined

type_synonym obj = "(string \<times> jsval) list"

definition get_prop :: "obj \<Rightarrow> string \<Rightarrow> jsval" where
  "get_prop ob k = (case map_of ob k of Some v \<Rightarrow> v | None \<Rightarrow> Undefined)"

type_synonym User = obj
type_synonym Campaign = obj

text \<open>A thrown value is an \<open>Error\<close> with its message, or something else.\<close>

datatype exn = Error string | Thrown_value

fun message_or :: "exn \<Rightarrow> string \<Rightarrow> string" where
  "message_or (Error m) d = m"
| "message_or Thrown_value d = d"

text \<open>\<open>await file.text()\<close> resolves to the text or rejects.\<close>

type_synonym File = "exn + string"

section \<open>The backend and the webhook as the component sees them\<close>

text \<open>
  Every call the components make is recorded in a trace, in the order of the calls.
  \<open>Db_select table filters\<close> is \<open>from(table).select('*').eq(...)\<close>, and likewise for
  insert, update and delete. A backend call answers with \<open>{ error }\<close>: \<open>None\<close> is no
  error, \<open>Some m\<close> an error with message \<open>m\<close>.
\<close>

datatype body = Upload_form jsval Campaign File | Json_body obj

datatype effect =
    Db_select string "(string \<times> jsval) list"
  | Db_insert string "obj list"
  | Db_update string obj "(string \<times> jsval) list"
  | Db_delete string "(string \<times> jsval) list"
  | Http_post string body

type_synonym db_result = "string option"

datatype select_result = Select_error string | Select_data "obj list option"

text \<open>\<open>fetch\<close> resolves to a response with a status, or rejects; \<open>response.ok\<close> is a status in 200..299.\<close>

datatype fetch_result = Response nat | Rejected exn

definition ok :: "nat \<Rightarrow> bool" where
  "ok status = (200 \<le> status \<and> status \<le> 299)"

fun is_select :: "effect \<Rightarrow> bool" where
  "is_select (Db_select t f) = True"
| "is_select e = False"

fun is_post :: "effect \<Rightarrow> bool" where
  "is_post (Http_post u b) = True"
| "is_post e = False"

fun is_insert :: "effect \<Rightarrow> bool" where
  "is_insert (Db_insert t r) = True"
| "is_insert e = False"

section \<open>CSV import: UploadLeadsTab.tsx and EditCampaign in Campaigns.tsx\<close>

text \<open>
  \<open>parseCSVForPreview\<close>, the auto-mapping of \<open>handleFileSelect\<close> and
  \<open>processCSVWithMapping\<close> are the same text in both components; they are modelled once.
\<close>

record UploadResult =
  success :: bool
  message :: string
  leadsCount :: "nat option"
  errors :: "string list option"

record CSVPreview =
  headers :: "string list"
  rows :: "string list list"
  totalRows :: int

text \<open>
  The state \<open>columnMapping\<close> is an object from database column names to CSV column
  names. It is modelled by the list of its entries, in insertion order; an object has
  one entry per key, which the properties that need it state as \<open>distinct (map fst cm)\<close>.
\<close>

type_synonym ColumnMapping = "(string \<times> string) list"

record db_column =
  key :: string
  label :: string
  description :: string
  required :: bool

definition DATABASE_COLUMNS :: "db_column list" where
  "DATABASE_COLUMNS =
     [\<lparr>key = ''name'', label = ''Name'', description = ''Contact's full name'', required = False\<rparr>,
      \<lparr>key = ''phone'', label = ''Phone Number'', description = ''Contact phone number'', required = False\<rparr>,
      \<lparr>key = ''email'', label = ''Email Address'', description = ''Contact email address'', required = False\<rparr>,
      \<lparr>key = ''company_name'', label = ''Company Name'', description = ''Company or organization name'', required = False\<rparr>,
      \<lparr>key = ''job_title'', label = ''Job Title'', description = ''Contact's position or role'', required = False\<rparr>,
      \<lparr>key = ''source_url'', label = ''Source URL'', description = ''Website or profile URL'', required = False\<rparr>,
      \<lparr>key = ''source_platform'', label = ''Source Platform'', description = ''Platform where contact was found'', required = False\<rparr>]"

definition parseCSVForPreview :: "string \<Rightarrow> CSVPreview" where
  "parseCSVForPreview csvText =
     (let lines = filter (\<lambda>line. trim line \<noteq> []) (split_on (CHR 0x0A) csvText)
      in if length lines = 0 then \<lparr>headers = [], rows = [], totalRows = 0\<rparr>
         else \<lparr>headers = map (\<lambda>h. remove_dquotes (trim h)) (split_on (CHR '','') (lines ! 0)),
               rows = map (\<lambda>line. map (\<lambda>cell. remove_dquotes (trim cell)) (split_on (CHR '','') line))
                        (slice 1 6 lines),
               totalRows = int (length lines) - 1\<rparr>)"

text \<open>The callback of \<open>preview.headers.find\<close> in \<open>handleFileSelect\<close>.\<close>

definition header_matches :: "string \<Rightarrow> string \<Rightarrow> bool" where
  "header_matches dbKey header =
     (let lowerHeader = toLowerCase header; lowerDbKey = toLowerCase dbKey
      in if lowerHeader = lowerDbKey then True
         else if dbKey = ''name'' then
           includes_str lowerHeader ''name'' \<or> includes_str lowerHeader ''full_name'' \<or> includes_str lowerHeader ''first_name''
         else if dbKey = ''phone'' then
           includes_str lowerHeader ''phone'' \<or> includes_str lowerHeader ''mobile'' \<or> includes_str lowerHeader ''number'' \<or> lowerHeader = ''tel''
         else if dbKey = ''email'' then
           includes_str lowerHeader ''email'' \<or> includes_str lowerHeader ''mail'' \<or> lowerHeader = ''e-mail''
         else if dbKey = ''company_name'' then
           includes_str lowerHeader ''company'' \<or> includes_str lowerHeader ''organization'' \<or> includes_str lowerHeader ''org''
         else if dbKey = ''job_title'' then
           includes_str lowerHeader ''title'' \<or> includes_str lowerHeader ''position'' \<or> includes_str lowerHeader ''job'' \<or> includes_str lowerHeader ''role''
         else if dbKey = ''source_url'' then
           includes_str lowerHeader ''url'' \<or> includes_str lowerHeader ''website'' \<or> includes_str lowerHeader ''link''
         else if dbKey = ''source_platform'' then
           includes_str lowerHeader ''platform'' \<or> includes_str lowerHeader ''source'' \<or> includes_str lowerHeader ''site''
         else False)"

text \<open>
  The \<open>DATABASE_COLUMNS.forEach\<close> of \<open>handleFileSelect\<close>: a found header is stored
  under the column's key when it is truthy (a non-empty string).
\<close>

definition autoMapping :: "string list \<Rightarrow> ColumnMapping" where
  "autoMapping hs =
     fold (\<lambda>dbCol m.
             case find (header_matches (key dbCol)) hs of
               None \<Rightarrow> m
             | Some matchingHeader \<Rightarrow>
                 if matchingHeader \<noteq> [] then AList.update (key dbCol) matchingHeader m else m)
          DATABASE_COLUMNS []"

text \<open>\<open>handleColumnMappingChange\<close>: the choice \<open>none\<close> stores the empty string.\<close>

definition handleColumnMappingChange :: "string \<Rightarrow> string \<Rightarrow> ColumnMapping \<Rightarrow> ColumnMapping" where
  "handleColumnMappingChange dbColumn csvColumn prev =
     AList.update dbColumn (if csvColumn = ''none'' then [] else csvColumn) prev"

text \<open>
  The body of the \<open>Object.entries(columnMapping).forEach\<close> in \<open>processCSVWithMapping\<close>:
  the lead object of one row, an association list from database columns to cell values.
\<close>

type_synonym lead = "(string \<times> string) list"

definition map_row :: "ColumnMapping \<Rightarrow> string list \<Rightarrow> string list \<Rightarrow> lead" where
  "map_row columnMapping hs values =
     fold (\<lambda>(dbColumn, csvColumn) lead.
             if csvColumn \<noteq> [] then
               (let csvIndex = indexOf hs csvColumn
                in if csvIndex \<noteq> - 1 then
                     (case at_index values csvIndex of
                        None \<Rightarrow> lead
                      | Some v \<Rightarrow> if v \<noteq> [] then AList.update dbColumn v lead else lead)
                   else lead)
             else lead)
          columnMapping []"

text \<open>\<open>lead.k\<close> as a condition, and \<open>lead.k || ''\<close>.\<close>

definition truthy_prop :: "lead \<Rightarrow> string \<Rightarrow> bool" where
  "truthy_prop ld k = (case map_of ld k of None \<Rightarrow> False | Some v \<Rightarrow> v \<noteq> [])"

definition prop_or_empty :: "lead \<Rightarrow> string \<Rightarrow> string" where
  "prop_or_empty ld k = (case map_of ld k of None \<Rightarrow> [] | Some v \<Rightarrow> v)"

definition missing_message :: "nat \<Rightarrow> string" where
  "missing_message i = ''Row '' @ show_nat (i + 1) @ '': Missing required data (name, phone, or email)''"

text \<open>The \<open>for\<close> loop of \<open>processCSVWithMapping\<close>, from index \<open>i\<close> over the remaining lines.\<close>

fun process_rows ::
  "ColumnMapping \<Rightarrow> string list \<Rightarrow> nat \<Rightarrow> string list \<Rightarrow> lead list \<times> string list \<Rightarrow> lead list \<times> string list" where
  "process_rows cm hs i [] acc = acc"
| "process_rows cm hs i (line # rest) (leads, errs) =
     (let values = map (\<lambda>v. remove_dquotes (trim v)) (split_on (CHR '','') line);
          lead = map_row cm hs values
      in if truthy_prop lead ''name'' \<or> truthy_prop lead ''phone'' \<or> truthy_prop lead ''email''
         then process_rows cm hs (i + 1) rest (leads @ [lead], errs)
         else process_rows cm hs (i + 1) rest (leads, errs @ [missing_message i]))"

definition processCSVWithMapping :: "ColumnMapping \<Rightarrow> string \<Rightarrow> lead list \<times> string list" where
  "processCSVWithMapping columnMapping csvText =
     (let lines = filter (\<lambda>line. trim line \<noteq> []) (split_on (CHR 0x0A) csvText)
      in if length lines < 2 then ([], [])
         else (let hs = map (\<lambda>h. remove_dquotes (trim h)) (split_on (CHR '','') (lines ! 0))
               in process_rows columnMapping hs 1 (drop 1 lines) ([], [])))"

text \<open>The \<open>leads.map\<close> of \<open>handleFileUpload\<close>, the same in both components.\<close>

definition leadsToInsert :: "jsval \<Rightarrow> jsval \<Rightarrow> lead list \<Rightarrow> obj list" where
  "leadsToInsert userId campaignId leads =
     map (\<lambda>lead.
            [(''user_id'', userId),
             (''campaign_id'', campaignId),
             (''name'', Str (prop_or_empty lead ''name'')),
             (''phone'', Str (prop_or_empty lead ''phone'')),
             (''email'', Str (prop_or_empty lead ''email'')),
             (''company_name'', Str (prop_or_empty lead ''company_name'')),
             (''job_title'', Str (prop_or_empty lead ''job_title'')),
             (''source_url'', Str (prop_or_empty lead ''source_url'')),
             (''source_platform'', Str (prop_or_empty lead ''source_platform'')),
             (''status'', Str ''pending'')])
         leads"

text \<open>
  The \<open>useState\<close> variables the CSV handlers read and write. \<open>UploadLeadsTab\<close> adds its
  list of leads, \<open>EditCampaign\<close> its campaign, its form and two flags.
\<close>

record csv_state =
  loading :: bool
  csvFile :: "File option"
  uploadLoading :: bool
  uploadResult :: "UploadResult option"
  csvPreview :: "CSVPreview option"
  columnMapping :: ColumnMapping
  showPreview :: bool

record UploadLeadsTab_state = csv_state +
  existingLeads :: "obj list"

record EditCampaign_state = csv_state +
  campaign :: "Campaign option"
  formData :: obj
  saving :: bool
  publishing :: bool

definition handleFileSelect :: "File option \<Rightarrow> 'a csv_state_scheme \<Rightarrow> 'a csv_state_scheme" where
  "handleFileSelect file st =
     (case file of
        None \<Rightarrow> st
      | Some f \<Rightarrow>
          (let st1 = st\<lparr>csvFile := Some f, uploadResult := None, showPreview := False\<rparr>
           in case f of
                Inr csvText \<Rightarrow>
                  (let preview = parseCSVForPreview csvText
                   in st1\<lparr>csvPreview := Some preview,
                          columnMapping := autoMapping (headers preview),
                          showPreview := True\<rparr>)
              | Inl e \<Rightarrow>
                  st1\<lparr>uploadResult := Some
                    \<lparr>success = False,
                     message = ''Error reading CSV file. Please check the file format.'',
                     leadsCount = None,
                     errors = Some [''Make sure the file is a valid CSV with comma-separated values'']\<rparr>\<rparr>))"

subsection \<open>UploadLeadsTab\<close>

text \<open>
  \<open>fetchExistingLeads\<close> returns the query it issues and the state once the answer has
  arrived. The handlers call it without awaiting it; it writes \<open>existingLeads\<close> and
  \<open>loading\<close> only, so its writes are applied after the handler's own.
\<close>

definition fetchExistingLeads ::
  "User option \<Rightarrow> string \<Rightarrow> select_result \<Rightarrow> UploadLeadsTab_state \<Rightarrow> effect list \<times> UploadLeadsTab_state" where
  "fetchExistingLeads user campaignId answer st =
     (case user of
        None \<Rightarrow> ([], st)
      | Some u \<Rightarrow>
          if campaignId = [] then ([], st)
          else ([Db_select ''uploaded_leads'' [(''campaign_id'', Str campaignId), (''user_id'', get_prop u ''id'')]],
                (case answer of
                   Select_error m \<Rightarrow> st\<lparr>loading := False\<rparr>
                 | Select_data d \<Rightarrow>
                     st\<lparr>existingLeads := (case d of None \<Rightarrow> [] | Some found \<Rightarrow> found), loading := False\<rparr>)))"

text \<open>
  The results both upload handlers report: the one of the \<open>catch\<close> block (with the
  component's own message), and the one for a file without a valid lead. \<open>finish\<close> is
  \<open>setUploadResult\<close> followed by the \<open>finally\<close> block; \<open>reset_form\<close> is the four
  setters after a successful upload.
\<close>

definition upload_caught :: "string \<Rightarrow> exn \<Rightarrow> UploadResult" where
  "upload_caught msg e =
     \<lparr>success = False, message = msg, leadsCount = None,
      errors = Some [message_or e ''Unknown error occurred'']\<rparr>"

definition no_valid_leads :: "string list \<Rightarrow> UploadResult" where
  "no_valid_leads errs =
     \<lparr>success = False, message = ''No valid leads found in CSV file.'', leadsCount = None,
      errors = Some (''Please ensure at least one row has name, phone, or email data'' # errs)\<rparr>"

definition finish :: "UploadResult \<Rightarrow> 'a csv_state_scheme \<Rightarrow> 'a csv_state_scheme" where
  "finish r st = st\<lparr>uploadResult := Some r, uploadLoading := False\<rparr>"

definition reset_form :: "'a csv_state_scheme \<Rightarrow> 'a csv_state_scheme" where
  "reset_form st = st\<lparr>csvFile := None, csvPreview := None, showPreview := False, columnMapping := []\<rparr>"

definition handleFileUpload ::
  "User option \<Rightarrow> string \<Rightarrow> db_result \<Rightarrow> select_result \<Rightarrow> UploadLeadsTab_state \<Rightarrow> effect list \<times> UploadLeadsTab_state" where
  "handleFileUpload user campaignId dbError answer st =
     (case (csvFile st, user) of
        (Some file, Some u) \<Rightarrow>
          if campaignId = [] then ([], st)
          else
            (let st1 = st\<lparr>uploadLoading := True, uploadResult := None\<rparr>
             in case file of
                  Inl e \<Rightarrow> ([], finish (upload_caught ''Failed to upload leads.'' e) st1)
                | Inr csvText \<Rightarrow>
                    (case processCSVWithMapping (columnMapping st) csvText of
                       (leads, errs) \<Rightarrow>
                         if length leads = 0 then ([], finish (no_valid_leads errs) st1)
                         else
                           (let toInsert = leadsToInsert (get_prop u ''id'') (Str campaignId) leads;
                                ins = Db_insert ''uploaded_leads'' toInsert
                            in case dbError of
                                 Some m \<Rightarrow>
                                   ([ins], finish (upload_caught ''Failed to upload leads.''
                                                     (Error (''Database error: '' @ m))) st1)
                               | None \<Rightarrow>
                                   (let st2 = reset_form (finish
                                                \<lparr>success = True,
                                                 message = ''Successfully uploaded '' @ show_nat (length leads) @ '' leads!'',
                                                 leadsCount = Some (length leads), errors = None\<rparr> st1);
                                        refetch = fetchExistingLeads user campaignId answer st2
                                    in (ins # fst refetch, snd refetch)))))
      | _ \<Rightarrow> ([], st))"

text \<open>\<open>deleteLead\<close>: \<open>confirmed\<close> is the answer to the \<open>confirm\<close> dialog.\<close>

definition deleteLead ::
  "User option \<Rightarrow> string \<Rightarrow> bool \<Rightarrow> string \<Rightarrow> db_result \<Rightarrow> select_result \<Rightarrow> UploadLeadsTab_state \<Rightarrow> effect list \<times> UploadLeadsTab_state" where
  "deleteLead user campaignId confirmed leadId error answer st =
     (if \<not> confirmed then ([], st)
      else (let del = Db_delete ''uploaded_leads'' [(''id'', Str leadId)]
            in case error of
                 Some m \<Rightarrow> ([del], st)
               | None \<Rightarrow>
                   (let refetch = fetchExistingLeads user campaignId answer st
                    in (del # fst refetch, snd refetch))))"

subsection \<open>EditCampaign\<close>

text \<open>
  \<open>webhookError || 'Webhook connection failed'\<close>: the default stands in for \<open>null\<close> and
  for the empty string.
\<close>

definition or_default :: "string option \<Rightarrow> string \<Rightarrow> string" where
  "or_default v d = (case v of None \<Rightarrow> d | Some s \<Rightarrow> if s = [] then d else s)"

text \<open>
  The inner \<open>try\<close> of \<open>handleFileUpload\<close>: the pair \<open>(webhookSuccess, webhookError)\<close>
  after the call of the webhook.
\<close>

definition start_campaign_webhook :: "fetch_result \<Rightarrow> bool \<times> string option" where
  "start_campaign_webhook webhook =
     (case webhook of
        Response status \<Rightarrow>
          if ok status then (True, None)
          else (False, Some (''Webhook failed with status: '' @ show_nat status))
      | Rejected e \<Rightarrow> (False, Some (''Webhook error: '' @ message_or e ''Unknown error'')))"

definition EditCampaign_handleFileUpload ::
  "User option \<Rightarrow> db_result \<Rightarrow> fetch_result \<Rightarrow> EditCampaign_state \<Rightarrow> effect list \<times> EditCampaign_state" where
  "EditCampaign_handleFileUpload user dbError webhook st =
     (case (csvFile st, user, campaign st) of
        (Some file, Some u, Some camp) \<Rightarrow>
          (let st1 = st\<lparr>uploadLoading := True, uploadResult := None\<rparr>
           in case file of
                Inl e \<Rightarrow> ([], finish (upload_caught ''Failed to upload leads to database.'' e) st1)
              | Inr csvText \<Rightarrow>
                  (case processCSVWithMapping (columnMapping st) csvText of
                     (leads, errs) \<Rightarrow>
                       if length leads = 0 then ([], finish (no_valid_leads errs) st1)
                       else
                         (let toInsert = leadsToInsert (get_prop u ''id'') (get_prop camp ''id'') leads;
                              ins = Db_insert ''uploaded_leads'' toInsert
                          in case dbError of
                               Some m \<Rightarrow>
                                 ([ins], finish (upload_caught ''Failed to upload leads to database.''
                                                   (Error (''Database error: '' @ m))) st1)
                             | None \<Rightarrow>
                                 (let post = Http_post ''https://mazirhx.app.n8n.cloud/webhook/start-campaign-upload''
                                               (Upload_form (get_prop u ''id'') camp file)
                                  in case start_campaign_webhook webhook of
                                       (webhookSuccess, webhookError) \<Rightarrow>
                                         ([ins, post],
                                          reset_form (finish
                                            \<lparr>success = True,
                                             message = ''Successfully uploaded '' @ show_nat (length leads) @ '' leads to the database!'',
                                             leadsCount = Some (length leads),
                                             errors = Some (if webhookSuccess then []
                                                            else [''Note: Leads saved to database successfully, but automation webhook failed.'',
                                                                  or_default webhookError ''Webhook connection failed''])\<rparr>
                                            st1))))))
      | _ \<Rightarrow> ([], st))"

definition triggerChannelsEngine ::
  "User option \<Rightarrow> fetch_result \<Rightarrow> EditCampaign_state \<Rightarrow> effect list \<times> EditCampaign_state" where
  "triggerChannelsEngine user webhook st =
     (case (campaign st, user) of
        (Some camp, Some u) \<Rightarrow>
          (let post = Http_post ''https://mazirhx.app.n8n.cloud/webhook/channels-engine''
                        (Json_body [(''user_id'', get_prop u ''id''),
                                    (''campaign_id'', get_prop camp ''id''),
                                    (''trigger_type'', Str ''manual'')]);
               failed = \<lparr>success = False, message = ''Failed to trigger channels engine. Please try again.'',
                         leadsCount = None, errors = None\<rparr>
           in case webhook of
                Response status \<Rightarrow>
                  if ok status then
                    ([post], st\<lparr>uploadResult := Some
                               \<lparr>success = True, message = ''Channels engine triggered successfully!'',
                                leadsCount = None, errors = None\<rparr>\<rparr>)
                  else ([post], st\<lparr>uploadResult := Some failed\<rparr>)
              | Rejected e \<Rightarrow> ([post], st\<lparr>uploadResult := Some failed\<rparr>))
      | _ \<Rightarrow> ([], st))"

text \<open>\<open>handleSubmit\<close> and \<open>handlePublish\<close>: \<open>ident\<close> is the route parameter \<open>id\<close>.\<close>

definition handleSubmit ::
  "string option \<Rightarrow> User option \<Rightarrow> db_result \<Rightarrow> EditCampaign_state \<Rightarrow> effect list \<times> EditCampaign_state" where
  "handleSubmit ident user error st =
     (case (ident, user) of
        (Some i, Some u) \<Rightarrow>
          if i = [] then ([], st)
          else
            (let upd = Db_update ''campaigns'' (formData st) [(''id'', Str i), (''user_id'', get_prop u ''id'')]
             in case error of
                  None \<Rightarrow>
                    ([upd], st\<lparr>uploadResult := Some
                               \<lparr>success = True, message = ''Campaign updated successfully!'',
                                leadsCount = None, errors = None\<rparr>,
                             saving := False\<rparr>)
                | Some m \<Rightarrow>
                    ([upd], st\<lparr>uploadResult := Some
                               \<lparr>success = False, message = ''Error updating campaign. Please try again.'',
                                leadsCount = None, errors = None\<rparr>,
                             saving := False\<rparr>))
      | _ \<Rightarrow> ([], st))"

definition handlePublish ::
  "string option \<Rightarrow> User option \<Rightarrow> db_result \<Rightarrow> EditCampaign_state \<Rightarrow> effect list \<times> EditCampaign_state" where
  "handlePublish ident user error st =
     (case (ident, user) of
        (Some i, Some u) \<Rightarrow>
          if i = [] then ([], st)
          else
            (let upd = Db_update ''campaigns'' [(''status'', Str ''active'')]
                         [(''id'', Str i), (''user_id'', get_prop u ''id'')]
             in case error of
                  None \<Rightarrow>
                    ([upd], st\<lparr>campaign := map_option (AList.update ''status'' (Str ''active'')) (campaign st),
                             formData := AList.update ''status'' (Str ''active'') (formData st),
                             uploadResult := Some
                               \<lparr>success = True, message = ''Campaign published successfully!'',
                                leadsCount = None, errors = None\<rparr>,
                             publishing := False\<rparr>)
                | Some m \<Rightarrow>
                    ([upd], st\<lparr>uploadResult := Some
                               \<lparr>success = False, message = ''Error publishing campaign. Please try again.'',
                                leadsCount = None, errors = None\<rparr>,
                             publishing := False\<rparr>))
      | _ \<Rightarrow> ([], st))"

section \<open>Campaigns in Campaigns.tsx\<close>

text \<open>
  The state of the list view. The fields \<open>loading\<close> and \<open>formData\<close> of the source carry
  the suffix \<open>_list\<close> here, the plain names being fields of the records above.
  \<open>{ user_id: user.id, ...formData }\<close> writes the form's properties over the first one.
\<close>

record Campaigns_state =
  campaigns :: "obj list"
  loading_list :: bool
  showCreateForm :: bool
  formData_list :: obj

definition spread :: "obj \<Rightarrow> obj \<Rightarrow> obj" where
  "spread src target = fold (\<lambda>(k, v). AList.update k v) src target"

definition fetchCampaigns ::
  "User option \<Rightarrow> select_result \<Rightarrow> Campaigns_state \<Rightarrow> effect list \<times> Campaigns_state" where
  "fetchCampaigns user answer st =
     (case user of
        None \<Rightarrow> ([], st)
      | Some u \<Rightarrow>
          ([Db_select ''campaigns'' [(''user_id'', get_prop u ''id'')]],
           (case answer of
              Select_error m \<Rightarrow> st\<lparr>loading_list := False\<rparr>
            | Select_data d \<Rightarrow>
                st\<lparr>campaigns := (case d of None \<Rightarrow> [] | Some found \<Rightarrow> found), loading_list := False\<rparr>)))"

definition handleCreateCampaign ::
  "User option \<Rightarrow> db_result \<Rightarrow> select_result \<Rightarrow> Campaigns_state \<Rightarrow> effect list \<times> Campaigns_state" where
  "handleCreateCampaign user error answer st =
     (case user of
        None \<Rightarrow> ([], st)
      | Some u \<Rightarrow>
          (let ins = Db_insert ''campaigns'' [spread (formData_list st) [(''user_id'', get_prop u ''id'')]]
           in case error of
                Some m \<Rightarrow> ([ins], st)
              | None \<Rightarrow>
                  (let st1 = st\<lparr>formData_list := [(''offer'', Str []), (''calendar_url'', Str []),
                                                     (''goal'', Str []), (''status'', Str ''draft'')],
                                 showCreateForm := False\<rparr>;
                       refetch = fetchCampaigns user answer st1
                   in (ins # fst refetch, snd refetch))))"

definition handleDeleteCampaign ::
  "User option \<Rightarrow> bool \<Rightarrow> string \<Rightarrow> db_result \<Rightarrow> select_result \<Rightarrow> Campaigns_state \<Rightarrow> effect list \<times> Campaigns_state" where
  "handleDeleteCampaign user confirmed campaignId error answer st =
     (if \<not> confirmed then ([], st)
      else (let del = Db_delete ''campaigns'' [(''id'', Str campaignId)]
            in case error of
                 Some m \<Rightarrow> ([del], st)
               | None \<Rightarrow>
                   (let refetch = fetchCampaigns user answer st
                    in (del # fst refetch, snd refetch))))"

section \<open>SequenceBuilder.tsx\<close>

datatype message_type = Call | Sms | Whatsapp | Email

fun message_type_str :: "message_type \<Rightarrow> string" where
  "message_type_str Call = ''call''"
| "message_type_str Sms = ''sms''"
| "message_type_str Whatsapp = ''whatsapp''"
| "message_type_str Email = ''email''"

text \<open>The optional field \<open>id\<close> of the source is \<open>id_step\<close>.\<close>

record SequenceStep =
  id_step :: "string option"
  step_number :: int
  message_type :: message_type
  message_content :: string
  delay_hours :: int
  conditions :: "string option"

definition initial_steps :: "SequenceStep list" where
  "initial_steps =
     [\<lparr>id_step = None, step_number = 1, message_type = Call, message_content = [],
       delay_hours = 0, conditions = None\<rparr>]"

definition addStep :: "SequenceStep list \<Rightarrow> SequenceStep list" where
  "addStep steps =
     (let newStep = \<lparr>id_step = None, step_number = int (length steps) + 1, message_type = Sms,
                      message_content = [], delay_hours = 24, conditions = None\<rparr>
      in steps @ [newStep])"

definition removeStep :: "int \<Rightarrow> SequenceStep list \<Rightarrow> SequenceStep list" where
  "removeStep index steps =
     (let newSteps = map snd (filter (\<lambda>(i, _). int i \<noteq> index) (enumerate 0 steps));
          renumberedSteps = map (\<lambda>(i, step). step\<lparr>step_number := int i + 1\<rparr>) (enumerate 0 newSteps)
      in renumberedSteps)"

text \<open>\<open>stepsToInsert\<close> of \<open>saveSequence\<close>; \<open>step.conditions || null\<close>.\<close>

definition stepsToInsert :: "string \<Rightarrow> SequenceStep list \<Rightarrow> obj list" where
  "stepsToInsert campaignId steps =
     map (\<lambda>step.
            [(''campaign_id'', Str campaignId),
             (''step_number'', Num (step_number step)),
             (''message_type'', Str (message_type_str (message_type step))),
             (''message_content'', Str (message_content step)),
             (''delay_hours'', Num (delay_hours step)),
             (''conditions'', (case conditions step of
                                 None \<Rightarrow> Null
                               | Some c \<Rightarrow> if c \<noteq> [] then Str c else Null))])
         steps"

text \<open>
  The table \<open>campaign_sequences\<close> as the backend holds it: the rows in the order they were
  inserted, without the columns the backend fills in itself (\<open>id\<close>, \<open>created_at\<close>). A
  call that answers with an error leaves the table as it was; a delete that succeeds
  removes every row the filter selects; an insert that succeeds appends its rows.
\<close>

definition db_delete :: "db_result \<Rightarrow> string \<Rightarrow> jsval \<Rightarrow> obj list \<Rightarrow> obj list" where
  "db_delete answer col v tbl =
     (case answer of None \<Rightarrow> filter (\<lambda>r. get_prop r col \<noteq> v) tbl | Some m \<Rightarrow> tbl)"

definition db_insert :: "db_result \<Rightarrow> obj list \<Rightarrow> obj list \<Rightarrow> obj list" where
  "db_insert answer new tbl = (case answer of None \<Rightarrow> tbl @ new | Some m \<Rightarrow> tbl)"

definition stored_sequence :: "string \<Rightarrow> obj list \<Rightarrow> obj list" where
  "stored_sequence campaignId tbl = filter (\<lambda>r. get_prop r ''campaign_id'' = Str campaignId) tbl"

text \<open>
  \<open>saveSequence\<close>: the answer of the delete is awaited and not looked at; the answer of
  the insert decides between \<open>onSave?.()\<close> and the \<open>catch\<close>. The result is the trace, the
  table afterwards, and whether the line \<open>onSave?.()\<close> was reached.
\<close>

definition saveSequence ::
  "User option \<Rightarrow> string \<Rightarrow> SequenceStep list \<Rightarrow> db_result \<Rightarrow> db_result \<Rightarrow> obj list
     \<Rightarrow> effect list \<times> obj list \<times> bool" where
  "saveSequence user campaignId steps deleteAnswer insertAnswer tbl =
     (case user of
        None \<Rightarrow> ([], tbl, False)
      | Some u \<Rightarrow>
          (let del = Db_delete ''campaign_sequences'' [(''campaign_id'', Str campaignId)];
               tbl1 = db_delete deleteAnswer ''campaign_id'' (Str campaignId) tbl;
               new = stepsToInsert campaignId steps;
               ins = Db_insert ''campaign_sequences'' new;
               tbl2 = db_insert insertAnswer new tbl1
           in case insertAnswer of
                Some m \<Rightarrow> ([del, ins], tbl2, False)
              | None \<Rightarrow> ([del, ins], tbl2, True)))"

section \<open>Vocabulary of the properties\<close>

text \<open>The non-blank lines of a text and the cells of a line, as the parser forms them.\<close>

definition nonblank_lines :: "string \<Rightarrow> string list" where
  "nonblank_lines csvText = filter (\<lambda>line. trim line \<noteq> []) (split_on (CHR 0x0A) csvText)"

definition cells :: "string \<Rightarrow> string list" where
  "cells line = map (\<lambda>cell. remove_dquotes (trim cell)) (split_on (CHR '','') line)"

text \<open>Joining pieces with a separator, the inverse of splitting.\<close>

fun join :: "char \<Rightarrow> string list \<Rightarrow> string" where
  "join sep [] = []"
| "join sep [p] = p"
| "join sep (p # q # ps) = p @ sep # join sep (q # ps)"

text \<open>A row is valid when its lead object has a truthy name, phone or email.\<close>

definition valid_row :: "ColumnMapping \<Rightarrow> string list \<Rightarrow> string \<Rightarrow> bool" where
  "valid_row cm hs line =
     (let ld = map_row cm hs (cells line)
      in truthy_prop ld ''name'' \<or> truthy_prop ld ''phone'' \<or> truthy_prop ld ''email'')"

text \<open>
  The cell of a row under the first header equal to a CSV column: empty when no header
  has that name or the row is too short. The cell a mapping selects in a row for a
  database column is the cell under the mapped CSV column, and empty when the column is
  unmapped or mapped to the empty string.
\<close>

fun cell_under :: "string \<Rightarrow> string list \<Rightarrow> string list \<Rightarrow> string" where
  "cell_under csvColumn [] values = []"
| "cell_under csvColumn (h # hs) values =
     (if h = csvColumn then (case values of [] \<Rightarrow> [] | v # vs \<Rightarrow> v)
      else cell_under csvColumn hs (tl values))"

definition mapped_cell :: "ColumnMapping \<Rightarrow> string list \<Rightarrow> string list \<Rightarrow> string \<Rightarrow> string" where
  "mapped_cell cm hs values dbColumn =
     (case map_of cm dbColumn of
        None \<Rightarrow> []
      | Some csvColumn \<Rightarrow> if csvColumn = [] then [] else cell_under csvColumn hs values)"

text \<open>The value one entry of the mapping gives a lead: a non-empty cell, or nothing.\<close>

definition cell_value :: "string list \<Rightarrow> string list \<Rightarrow> string \<Rightarrow> string option" where
  "cell_value hs values csvColumn =
     (if csvColumn \<noteq> [] \<and> cell_under csvColumn hs values \<noteq> []
      then Some (cell_under csvColumn hs values) else None)"

text \<open>Steps are numbered when their numbers are 1, 2, ..., n in list order.\<close>

definition numbered :: "SequenceStep list \<Rightarrow> bool" where
  "numbered steps = (map step_number steps = map int [1..<Suc (length steps)])"

text \<open>
  The keyword test of a database column on a lower-cased header: the words one of which
  the header must contain, and the words one of which it must equal.
\<close>

definition field_keywords :: "string \<Rightarrow> string list \<times> string list" where
  "field_keywords k =
     (if k = ''name'' then ([''name'', ''full_name'', ''first_name''], [])
      else if k = ''phone'' then ([''phone'', ''mobile'', ''number''], [''tel''])
      else if k = ''email'' then ([''email'', ''mail''], [''e-mail''])
      else if k = ''company_name'' then ([''company'', ''organization'', ''org''], [])
      else if k = ''job_title'' then ([''title'', ''position'', ''job'', ''role''], [])
      else if k = ''source_url'' then ([''url'', ''website'', ''link''], [])
      else if k = ''source_platform'' then ([''platform'', ''source'', ''site''], [])
      else ([], []))"

definition keyword_test :: "string \<Rightarrow> string \<Rightarrow> bool" where
  "keyword_test k l =
     (case field_keywords k of
        (parts, whole) \<Rightarrow> (\<exists>w\<in>set parts. includes_str l w) \<or> l \<in> set whole)"

text \<open>One step of the \<open>forEach\<close> of the auto-mapping, for the column with key \<open>k\<close>.\<close>

definition suggest :: "string list \<Rightarrow> string \<Rightarrow> ColumnMapping \<Rightarrow> ColumnMapping" where
  "suggest hs k m =
     (case find (header_matches k) hs of
        None \<Rightarrow> m
      | Some h \<Rightarrow> if h \<noteq> [] then AList.update k h m else m)"

text \<open>
  A trace re-fetches when every insert, update or delete in it is followed, later in the
  trace, by a select.
\<close>

fun is_mutation :: "effect \<Rightarrow> bool" where
  "is_mutation (Db_insert t r) = True"
| "is_mutation (Db_update t v f) = True"
| "is_mutation (Db_delete t f) = True"
| "is_mutation e = False"

fun refetched :: "effect list \<Rightarrow> bool" where
  "refetched [] = True"
| "refetched (e # es) = ((is_mutation e \<longrightarrow> list_ex is_select es) \<and> refetched es)"

section \<open>Example inputs\<close>

text \<open>
  A file with a header line, a data line with a quoted comma and a CRLF, a blank line,
  and a data line with two empty cells.
\<close>

definition ex_text :: string where
  "ex_text = ''name,phone'' @ [CHR 0x0A] @ [CHR 0x22] @ ''Doe, Ann'' @ [CHR 0x22] @ '',555''
             @ [CHR 0x0D, CHR 0x0A, CHR 0x0A] @ '' ,'' @ [CHR 0x0A]"

definition ex_line :: string where
  "ex_line = [CHR 0x22] @ ''Doe, Ann'' @ [CHR 0x22] @ '',555'' @ [CHR 0x0D]"

text \<open>A header line as a spreadsheet may export it.\<close>

definition ex_headers :: "string list" where
  "ex_headers = [''Id'', ''Full Name'', ''Contact Number'', ''TEL'', ''Mail'', []]"

text \<open>A user, a campaign, a mapping and the state of each component after the file was chosen.\<close>

definition ex_user :: User where
  "ex_user = [(''id'', Str ''u1'')]"

definition ex_campaign :: Campaign where
  "ex_campaign = [(''id'', Str ''c1''), (''status'', Str ''draft'')]"

definition ex_mapping :: ColumnMapping where
  "ex_mapping = [(''name'', ''name''), (''phone'', ''phone''), (''email'', [])]"

definition ex_tab_state :: UploadLeadsTab_state where
  "ex_tab_state =
     \<lparr>loading = False, csvFile = Some (Inr ex_text), uploadLoading = False, uploadResult = None,
      csvPreview = None, columnMapping = ex_mapping, showPreview = True, existingLeads = []\<rparr>"

definition ex_edit_state :: EditCampaign_state where
  "ex_edit_state =
     \<lparr>loading = False, csvFile = Some (Inr ex_text), uploadLoading = False, uploadResult = None,
      csvPreview = None, columnMapping = ex_mapping, showPreview = True,
      campaign = Some ex_campaign,
      formData = [(''offer'', Str []), (''calendar_url'', Str []), (''goal'', Str []), (''status'', Str ''draft'')],
      saving = False, publishing = False\<rparr>"

text \<open>The row both handlers insert for the first data line of the example.\<close>

definition ex_row :: obj where
  "ex_row =
     [(''user_id'', Str ''u1''), (''campaign_id'', Str ''c1''), (''name'', Str ''Doe''),
      (''phone'', Str ''Ann''), (''email'', Str []), (''company_name'', Str []),
      (''job_title'', Str []), (''source_url'', Str []), (''source_platform'', Str []),
      (''status'', Str ''pending'')]"

text \<open>A stored step of campaign \<open>c1\<close> from an earlier save, and the state of the list view.\<close>

definition ex_old_row :: obj where
  "ex_old_row =
     [(''campaign_id'', Str ''c1''), (''step_number'', Num 1), (''message_type'', Str ''email''),
      (''message_content'', Str ''hello''), (''delay_hours'', Num 0), (''conditions'', Null)]"

definition ex_list_state :: Campaigns_state where
  "ex_list_state =
     \<lparr>campaigns = [], loading_list = False, showCreateForm = True,
      formData_list = [(''offer'', Str ''Demo''), (''calendar_url'', Str []), (''goal'', Str []),
                       (''status'', Str ''draft'')]\<rparr>"

section \<open>Splitting, trimming and the parser\<close>

lemma split_from_not_Nil: "split_from sep cur s \<noteq> []"
  by (induction s arbitrary: cur) auto

lemma length_split_from: "length (split_from sep cur s) = Suc (count_list s sep)"
  by (induction s arbitrary: cur) auto

lemma split_from_no_sep:
  "sep \<notin> set cur \<Longrightarrow> \<forall>p\<in>set (split_from sep cur s). sep \<notin> set p"
proof (induction s arbitrary: cur)
  case Nil
  then show ?case by simp
next
  case (Cons c cs)
  show ?case
  proof (cases "c = sep")
    case True
    with Cons.prems Cons.IH [of "[]"] show ?thesis by simp
  next
    case False
    with Cons.prems Cons.IH [of "cur @ [c]"] show ?thesis by simp
  qed
qed

lemma join_Cons: "qs \<noteq> [] \<Longrightarrow> join sep (p # qs) = p @ sep # join sep qs"
  by (cases qs) auto

lemma join_split_from: "join sep (split_from sep cur s) = cur @ s"
  by (induction s arbitrary: cur) (auto simp: join_Cons split_from_not_Nil)

lemma split_on_not_Nil: "split_on sep s \<noteq> []"
  by (simp add: split_on_def split_from_not_Nil)

lemma length_split_on: "length (split_on sep s) = Suc (count_list s sep)"
  by (simp add: split_on_def length_split_from)

lemma split_on_no_sep: "p \<in> set (split_on sep s) \<Longrightarrow> sep \<notin> set p"
  using split_from_no_sep [of sep "[]" s] by (simp add: split_on_def)

lemma join_split_on: "join sep (split_on sep s) = s"
  by (simp add: split_on_def join_split_from)

lemma all_dropWhile: "(\<forall>x\<in>set (dropWhile P xs). P x) \<longleftrightarrow> (\<forall>x\<in>set xs. P x)"
  by (induction xs) auto

lemma trim_eq_Nil: "trim s = [] \<longleftrightarrow> (\<forall>c\<in>set s. isWhiteSpace c)"
  by (simp add: trim_def all_dropWhile)

lemma dquote_not_in_remove_dquotes: "CHR 0x22 \<notin> set (remove_dquotes s)"
  by (simp add: remove_dquotes_def)

lemma length_cells: "length (cells line) = Suc (count_list line (CHR '',''))"
  by (simp add: cells_def length_split_on)

lemma nonblank_lines_alt:
  "nonblank_lines csvText = filter (\<lambda>l. \<exists>c\<in>set l. \<not> isWhiteSpace c) (split_on (CHR 0x0A) csvText)"
  by (simp add: nonblank_lines_def trim_eq_Nil)

lemma cells_nth:
  "i < length (cells line) \<Longrightarrow>
     cells line ! i = filter (\<lambda>c. c \<noteq> CHR 0x22) (trim (split_on (CHR '','') line ! i))"
  by (simp add: cells_def remove_dquotes_def)

lemma cells_no_dquote: "cell \<in> set (cells line) \<Longrightarrow> CHR 0x22 \<notin> set cell"
  by (auto simp: cells_def remove_dquotes_def)

lemma headers_parseCSVForPreview:
  "headers (parseCSVForPreview csvText) =
     (case nonblank_lines csvText of [] \<Rightarrow> [] | l # ls \<Rightarrow> cells l)"
  by (simp add: parseCSVForPreview_def nonblank_lines_def cells_def Let_def split: list.splits)

lemma rows_parseCSVForPreview:
  "rows (parseCSVForPreview csvText) = map cells (take 5 (tl (nonblank_lines csvText)))"
  by (auto simp: parseCSVForPreview_def nonblank_lines_def cells_def Let_def slice_def drop_Suc
      split: list.splits)

lemma totalRows_parseCSVForPreview:
  "totalRows (parseCSVForPreview csvText) =
     (if nonblank_lines csvText = [] then 0 else int (length (nonblank_lines csvText)) - 1)"
  by (simp add: parseCSVForPreview_def nonblank_lines_def Let_def)

lemma process_rows_eq:
  "process_rows cm hs i ls (leads, errs) =
     (leads @ map (\<lambda>(j, l). map_row cm hs (cells l))
                (filter (\<lambda>(j, l). valid_row cm hs l) (enumerate i ls)),
      errs @ map (\<lambda>(j, l). missing_message j)
               (filter (\<lambda>(j, l). \<not> valid_row cm hs l) (enumerate i ls)))"
  by (induction ls arbitrary: i leads errs) (simp_all add: valid_row_def cells_def Let_def)

lemma processCSVWithMapping_eq:
  "processCSVWithMapping cm csvText =
     (let lines = nonblank_lines csvText; hs = cells (hd lines); dat = enumerate 1 (tl lines)
      in (map (\<lambda>(j, l). map_row cm hs (cells l)) (filter (\<lambda>(j, l). valid_row cm hs l) dat),
          map (\<lambda>(j, l). missing_message j) (filter (\<lambda>(j, l). \<not> valid_row cm hs l) dat)))"
proof (cases "nonblank_lines csvText")
  case Nil
  then show ?thesis
    by (simp add: processCSVWithMapping_def nonblank_lines_def)
next
  case (Cons h rest)
  then show ?thesis
    by (cases rest)
       (simp_all add: processCSVWithMapping_def nonblank_lines_def process_rows_eq cells_def Let_def)
qed

lemma length_filter_pairs:
  "length (filter (\<lambda>(j, l). P l) xs) + length (filter (\<lambda>(j, l). \<not> P l) xs) = length xs"
  by (induction xs) auto

lemma processCSVWithMapping_count:
  "length (fst (processCSVWithMapping cm csvText)) + length (snd (processCSVWithMapping cm csvText))
     = length (nonblank_lines csvText) - 1"
  by (simp add: processCSVWithMapping_eq Let_def length_filter_pairs)

lemma filter_enumerate_snd:
  "map (\<lambda>(j, l). f l) (filter (\<lambda>(j, l). P l) (enumerate i xs)) = map f (filter P xs)"
  by (induction xs arbitrary: i) auto

lemma leads_processCSVWithMapping:
  "fst (processCSVWithMapping cm csvText) =
     map (\<lambda>l. map_row cm (cells (hd (nonblank_lines csvText))) (cells l))
       (filter (valid_row cm (cells (hd (nonblank_lines csvText)))) (tl (nonblank_lines csvText)))"
  by (simp add: processCSVWithMapping_eq Let_def filter_enumerate_snd)

lemma cells_quoted_comma:
  "cells ([CHR 0x22] @ ''a,b'' @ [CHR 0x22] @ '',c'') = [''a'', ''b'', ''c'']"
  by (simp add: cells_def split_on_def trim_def isWhiteSpace_def remove_dquotes_def)

text \<open>
  C2. The parser splits the text at every newline, keeps the lines that have a character
  other than white space, splits each kept line at every comma (so a line has one cell
  more than it has commas, quoted or not), and each cell is the piece, trimmed, with all
  double quotes removed. The header and the rows of the preview and the leads of
  \<open>processCSVWithMapping\<close> are made of these cells. The line \<open>"a,b",c\<close> has the three
  cells \<open>a\<close>, \<open>b\<close>, \<open>c\<close>.
\<close>

theorem csv_parsing_naive:
  "nonblank_lines csvText = filter (\<lambda>l. \<exists>c\<in>set l. \<not> isWhiteSpace c) (split_on (CHR 0x0A) csvText)
   \<and> join (CHR 0x0A) (split_on (CHR 0x0A) csvText) = csvText
   \<and> (\<forall>l\<in>set (split_on (CHR 0x0A) csvText). CHR 0x0A \<notin> set l)
   \<and> join (CHR '','') (split_on (CHR '','') line) = line
   \<and> length (cells line) = Suc (count_list line (CHR '',''))
   \<and> (\<forall>i<length (cells line).
         cells line ! i = filter (\<lambda>c. c \<noteq> CHR 0x22) (trim (split_on (CHR '','') line ! i)))
   \<and> (\<forall>cell\<in>set (cells line). CHR 0x22 \<notin> set cell)
   \<and> headers (parseCSVForPreview csvText) = (case nonblank_lines csvText of [] \<Rightarrow> [] | l # ls \<Rightarrow> cells l)
   \<and> rows (parseCSVForPreview csvText) = map cells (take 5 (tl (nonblank_lines csvText)))
   \<and> fst (processCSVWithMapping cm csvText) =
        map (\<lambda>l. map_row cm (cells (hd (nonblank_lines csvText))) (cells l))
          (filter (valid_row cm (cells (hd (nonblank_lines csvText)))) (tl (nonblank_lines csvText)))
   \<and> cells ([CHR 0x22] @ ''a,b'' @ [CHR 0x22] @ '',c'') = [''a'', ''b'', ''c'']"
  by (intro conjI ballI allI impI nonblank_lines_alt join_split_on split_on_no_sep length_cells
      cells_nth cells_no_dquote headers_parseCSVForPreview rows_parseCSVForPreview
      leads_processCSVWithMapping cells_quoted_comma)

theorem csv_parsing_naive_witness:
  "ex_line \<in> set (split_on (CHR 0x0A) ex_text) \<and> CHR 0x0A \<notin> set ex_line
   \<and> nonblank_lines ex_text = [''name,phone'', ex_line, '' ,'']
   \<and> count_list ex_line (CHR '','') = 2 \<and> length (cells ex_line) = 3
   \<and> 1 < length (cells ex_line) \<and> cells ex_line ! 1 = ''Ann''
   \<and> ''Ann'' \<in> set (cells ex_line) \<and> CHR 0x22 \<notin> set ''Ann''
   \<and> headers (parseCSVForPreview ex_text) = [''name'', ''phone'']
   \<and> rows (parseCSVForPreview ex_text) = [[''Doe'', ''Ann'', ''555''], [[], []]]
   \<and> fst (processCSVWithMapping [(''name'', ''name'')] ex_text) = [[(''name'', ''Doe'')]]"
proof -
  note T = csv_parsing_naive [of ex_text ex_line "[(''name'', ''name'')]"]
  have sp: "split_on (CHR 0x0A) ex_text = [''name,phone'', ex_line, [], '' ,'', []]"
    by (simp add: ex_text_def ex_line_def split_on_def)
  have nb: "nonblank_lines ex_text = [''name,phone'', ex_line, '' ,'']"
    by (simp add: nonblank_lines_def sp trim_def isWhiteSpace_def ex_line_def)
  have ce: "cells '' ,'' = [[], []]"
    by (simp add: cells_def split_on_def trim_def isWhiteSpace_def remove_dquotes_def)
  have cl: "cells ex_line = [''Doe'', ''Ann'', ''555'']"
    by (simp add: cells_def ex_line_def split_on_def trim_def isWhiteSpace_def remove_dquotes_def)
  have ch: "cells ''name,phone'' = [''name'', ''phone'']"
    by (simp add: cells_def split_on_def trim_def isWhiteSpace_def remove_dquotes_def)
  have m: "ex_line \<in> set (split_on (CHR 0x0A) ex_text)"
    by (simp add: sp)
  from T m have a: "CHR 0x0A \<notin> set ex_line" by blast
  have c: "count_list ex_line (CHR '','') = 2" by (simp add: ex_line_def)
  from T c have l: "length (cells ex_line) = 3" by simp
  from T l have n1: "cells ex_line ! 1 = filter (\<lambda>c. c \<noteq> CHR 0x22) (trim (split_on (CHR '','') ex_line ! 1))"
    by simp
  have n2: "filter (\<lambda>c. c \<noteq> CHR 0x22) (trim (split_on (CHR '','') ex_line ! 1)) = ''Ann''"
    by (simp add: ex_line_def split_on_def trim_def isWhiteSpace_def)
  have mem: "''Ann'' \<in> set (cells ex_line)" by (simp add: cl)
  from T mem have q: "CHR 0x22 \<notin> set ''Ann''" by blast
  from T nb ch have h: "headers (parseCSVForPreview ex_text) = [''name'', ''phone'']" by simp
  from T nb cl ce have r: "rows (parseCSVForPreview ex_text) = [[''Doe'', ''Ann'', ''555''], [[], []]]"
    by simp
  have v: "valid_row [(''name'', ''name'')] [''name'', ''phone''] ex_line"
    by (simp add: valid_row_def cl map_row_def indexOf_def at_index_def truthy_prop_def)
  have mr: "map_row [(''name'', ''name'')] [''name'', ''phone''] [''Doe'', ''Ann'', ''555''] = [(''name'', ''Doe'')]"
    by (simp add: map_row_def indexOf_def at_index_def)
  have nv: "\<not> valid_row [(''name'', ''name'')] [''name'', ''phone''] '' ,''"
    by (simp add: valid_row_def ce map_row_def indexOf_def at_index_def truthy_prop_def)
  from T nb ch cl v nv mr
  have p: "fst (processCSVWithMapping [(''name'', ''name'')] ex_text) = [[(''name'', ''Doe'')]]"
    by simp
  from m a nb c l n1 n2 mem q h r p show ?thesis by simp
qed

text \<open>
  C6. For a text with no non-blank line \<open>parseCSVForPreview\<close> returns empty headers, no
  rows and \<open>totalRows = 0\<close>. Otherwise the headers are the cells of the first non-blank
  line, the rows are the cells of the next non-blank lines, five at most, and \<open>totalRows\<close>
  is the number of non-blank lines minus one. In both cases \<open>totalRows\<close> is the number
  of leads plus the number of row errors that \<open>processCSVWithMapping\<close> produces, under any
  mapping: rows that fail validation are counted.
\<close>

theorem preview_generation:
  "(nonblank_lines csvText = [] \<longrightarrow>
      parseCSVForPreview csvText = \<lparr>headers = [], rows = [], totalRows = 0\<rparr>)
   \<and> (nonblank_lines csvText \<noteq> [] \<longrightarrow>
        headers (parseCSVForPreview csvText) = cells (hd (nonblank_lines csvText))
        \<and> rows (parseCSVForPreview csvText) = map cells (take 5 (tl (nonblank_lines csvText)))
        \<and> length (rows (parseCSVForPreview csvText)) \<le> 5
        \<and> totalRows (parseCSVForPreview csvText) = int (length (nonblank_lines csvText)) - 1)
   \<and> totalRows (parseCSVForPreview csvText) =
        int (length (fst (processCSVWithMapping cm csvText))
             + length (snd (processCSVWithMapping cm csvText)))"
proof (intro conjI impI)
  assume "nonblank_lines csvText = []"
  then show "parseCSVForPreview csvText = \<lparr>headers = [], rows = [], totalRows = 0\<rparr>"
    by (simp add: parseCSVForPreview_def nonblank_lines_def)
next
  assume "nonblank_lines csvText \<noteq> []"
  then show "headers (parseCSVForPreview csvText) = cells (hd (nonblank_lines csvText))"
    by (cases "nonblank_lines csvText") (simp_all add: headers_parseCSVForPreview)
next
  show "rows (parseCSVForPreview csvText) = map cells (take 5 (tl (nonblank_lines csvText)))"
    by (rule rows_parseCSVForPreview)
next
  show "length (rows (parseCSVForPreview csvText)) \<le> 5"
    by (simp add: rows_parseCSVForPreview)
next
  assume "nonblank_lines csvText \<noteq> []"
  then show "totalRows (parseCSVForPreview csvText) = int (length (nonblank_lines csvText)) - 1"
    by (simp add: totalRows_parseCSVForPreview)
next
  show "totalRows (parseCSVForPreview csvText) =
          int (length (fst (processCSVWithMapping cm csvText))
               + length (snd (processCSVWithMapping cm csvText)))"
    by (cases "nonblank_lines csvText")
       (simp_all add: totalRows_parseCSVForPreview processCSVWithMapping_count)
qed

theorem preview_generation_witness:
  "nonblank_lines [] = []
   \<and> parseCSVForPreview [] = \<lparr>headers = [], rows = [], totalRows = 0\<rparr>
   \<and> nonblank_lines ex_text \<noteq> []
   \<and> headers (parseCSVForPreview ex_text) = [''name'', ''phone'']
   \<and> rows (parseCSVForPreview ex_text) = [[''Doe'', ''Ann'', ''555''], [[], []]]
   \<and> totalRows (parseCSVForPreview ex_text) = 2
   \<and> length (fst (processCSVWithMapping [] ex_text)) + length (snd (processCSVWithMapping [] ex_text)) = 2"
proof -
  have e: "nonblank_lines [] = []"
    by (simp add: nonblank_lines_def split_on_def trim_def)
  have nb: "nonblank_lines ex_text = [''name,phone'', ex_line, '' ,'']"
    by (simp add: nonblank_lines_def ex_text_def ex_line_def split_on_def trim_def isWhiteSpace_def)
  have ce: "cells '' ,'' = [[], []]"
    by (simp add: cells_def split_on_def trim_def isWhiteSpace_def remove_dquotes_def)
  have cl: "cells ex_line = [''Doe'', ''Ann'', ''555'']"
    by (simp add: cells_def ex_line_def split_on_def trim_def isWhiteSpace_def remove_dquotes_def)
  have ch: "cells ''name,phone'' = [''name'', ''phone'']"
    by (simp add: cells_def split_on_def trim_def isWhiteSpace_def remove_dquotes_def)
  from preview_generation [of "[]" "[]"] e
  have a: "parseCSVForPreview [] = \<lparr>headers = [], rows = [], totalRows = 0\<rparr>"
    by simp
  from preview_generation [of ex_text "[]"] nb cl ch ce
  have b: "headers (parseCSVForPreview ex_text) = [''name'', ''phone'']
           \<and> rows (parseCSVForPreview ex_text) = [[''Doe'', ''Ann'', ''555''], [[], []]]
           \<and> totalRows (parseCSVForPreview ex_text) = 2
           \<and> length (fst (processCSVWithMapping [] ex_text)) + length (snd (processCSVWithMapping [] ex_text)) = 2"
    by simp
  from e nb a b show ?thesis by simp
qed

section \<open>The column auto-mapper\<close>

lemma includes_str_iff: "includes_str s p \<longleftrightarrow> (\<exists>a b. s = a @ p @ b)"
proof (induction s)
  case Nil
  then show ?case by auto
next
  case (Cons c cs)
  have "take (length p) (c # cs) = p \<longleftrightarrow> (\<exists>b. c # cs = p @ b)"
    by (metis append_eq_conv_conj append_take_drop_id)
  moreover have "(\<exists>a b. c # cs = a @ p @ b) \<longleftrightarrow> (\<exists>b. c # cs = p @ b) \<or> (\<exists>a b. cs = a @ p @ b)"
  proof
    assume "\<exists>a b. c # cs = a @ p @ b"
    then obtain a b where ab: "c # cs = a @ p @ b" by blast
    show "(\<exists>b. c # cs = p @ b) \<or> (\<exists>a b. cs = a @ p @ b)"
    proof (cases a)
      case Nil
      with ab show ?thesis by auto
    next
      case (Cons x xs)
      with ab have "cs = xs @ p @ b" by simp
      then show ?thesis by blast
    qed
  next
    assume "(\<exists>b. c # cs = p @ b) \<or> (\<exists>a b. cs = a @ p @ b)"
    then show "\<exists>a b. c # cs = a @ p @ b"
    proof
      assume "\<exists>b. c # cs = p @ b"
      then obtain b where "c # cs = [] @ p @ b" by auto
      then show ?thesis by blast
    next
      assume "\<exists>a b. cs = a @ p @ b"
      then obtain a b where "c # cs = (c # a) @ p @ b" by auto
      then show ?thesis by blast
    qed
  qed
  ultimately show ?case using Cons.IH by simp
qed

lemma header_matches_iff:
  "header_matches k h \<longleftrightarrow> toLowerCase h = toLowerCase k \<or> keyword_test k (toLowerCase h)"
  by (simp add: header_matches_def keyword_test_def field_keywords_def Let_def)

lemma keyword_test_phone:
  "keyword_test ''phone'' l \<longleftrightarrow>
     includes_str l ''phone'' \<or> includes_str l ''mobile'' \<or> includes_str l ''number'' \<or> l = ''tel''"
  by (simp add: keyword_test_def field_keywords_def)

lemma header_matches_Nil: "header_matches k [] \<longleftrightarrow> k = []"
  by (auto simp: header_matches_def toLowerCase_def Let_def)

lemma find_header_not_Nil: "k \<noteq> [] \<Longrightarrow> find (header_matches k) hs = Some h \<Longrightarrow> h \<noteq> []"
  by (auto simp: find_Some_iff header_matches_Nil)

lemma update_fresh: "k \<notin> fst ` set m \<Longrightarrow> AList.update k v m = m @ [(k, v)]"
  by (induction m) auto

lemma autoMapping_fold: "autoMapping hs = fold (suggest hs) (map key DATABASE_COLUMNS) []"
proof -
  have eq: "(\<lambda>dbCol m. case find (header_matches (key dbCol)) hs of
                       None \<Rightarrow> m
                     | Some matchingHeader \<Rightarrow>
                         if matchingHeader \<noteq> [] then AList.update (key dbCol) matchingHeader m else m)
        = suggest hs \<circ> key"
    by (intro ext) (simp add: suggest_def)
  show ?thesis unfolding autoMapping_def eq fold_map ..
qed

lemma keys_DATABASE_COLUMNS:
  "map key DATABASE_COLUMNS =
     [''name'', ''phone'', ''email'', ''company_name'', ''job_title'', ''source_url'', ''source_platform'']"
  by (simp add: DATABASE_COLUMNS_def)

lemma fold_suggest:
  "distinct ks \<Longrightarrow> [] \<notin> set ks \<Longrightarrow> set ks \<inter> fst ` set m = {} \<Longrightarrow>
     fold (suggest hs) ks m =
       m @ List.map_filter (\<lambda>k. map_option (Pair k) (find (header_matches k) hs)) ks"
proof (induction ks arbitrary: m)
  case Nil
  then show ?case by (simp add: List.map_filter_simps)
next
  case (Cons k ks)
  show ?case
  proof (cases "find (header_matches k) hs")
    case None
    with Cons show ?thesis by (simp add: suggest_def List.map_filter_simps)
  next
    case (Some h)
    with Cons.prems have h: "h \<noteq> []" using find_header_not_Nil [of k hs h] by auto
    from Cons.prems have fresh: "k \<notin> fst ` set m" by auto
    have step: "suggest hs k m = m @ [(k, h)]"
      using Some h fresh by (simp add: suggest_def update_fresh)
    from Cons.prems have "set ks \<inter> fst ` set (m @ [(k, h)]) = {}" by auto
    with Cons.IH [of "m @ [(k, h)]"] Cons.prems
    have "fold (suggest hs) ks (m @ [(k, h)]) =
            (m @ [(k, h)]) @ List.map_filter (\<lambda>k. map_option (Pair k) (find (header_matches k) hs)) ks"
      by simp
    with step Some show ?thesis by (simp add: List.map_filter_simps)
  qed
qed

lemma autoMapping_eq:
  "autoMapping hs =
     List.map_filter (\<lambda>k. map_option (Pair k) (find (header_matches k) hs)) (map key DATABASE_COLUMNS)"
  using fold_suggest [of "map key DATABASE_COLUMNS" "[]" hs]
  by (simp add: autoMapping_fold keys_DATABASE_COLUMNS)

lemma map_fst_map_filter:
  "map fst (List.map_filter (\<lambda>k. map_option (Pair k) (f k)) ks) = filter (\<lambda>k. f k \<noteq> None) ks"
  by (induction ks) (auto simp: List.map_filter_simps split: option.splits)

lemma map_of_map_filter:
  "map_of (List.map_filter (\<lambda>k. map_option (Pair k) (f k)) ks) k = (if k \<in> set ks then f k else None)"
  by (induction ks) (auto simp: List.map_filter_simps split: option.splits)

lemma find_not_None: "find P xs \<noteq> None \<longleftrightarrow> (\<exists>x\<in>set xs. P x)"
  by (auto simp: find_None_iff)

lemma keys_autoMapping:
  "map fst (autoMapping hs) =
     filter (\<lambda>k. \<exists>h\<in>set hs. header_matches k h) (map key DATABASE_COLUMNS)"
  by (simp only: autoMapping_eq map_fst_map_filter find_not_None)

lemma map_of_autoMapping:
  "map_of (autoMapping hs) k =
     (if k \<in> set (map key DATABASE_COLUMNS) then find (header_matches k) hs else None)"
  by (simp only: autoMapping_eq map_of_map_filter)

lemma map_of_autoMapping_key:
  "k \<in> set (map key DATABASE_COLUMNS) \<Longrightarrow> map_of (autoMapping hs) k = find (header_matches k) hs"
  by (simp only: map_of_autoMapping if_True)

lemma map_of_autoMapping_other:
  "k \<notin> set (map key DATABASE_COLUMNS) \<Longrightarrow> map_of (autoMapping hs) k = None"
  by (simp only: map_of_autoMapping if_False)

text \<open>
  C3. The seven database columns are taken in their fixed order. The suggested mapping
  has an entry for exactly the columns some header matches, in that order; the entry of
  a column is the first header that matches it, and any other key is unmapped. A header
  matches a column when its lower-cased form equals the lower-cased key or passes the
  column's keyword test; for \<open>phone\<close> the test is: contains \<open>phone\<close>, \<open>mobile\<close> or
  \<open>number\<close>, or equals \<open>tel\<close>. To contain a word is to have it as a contiguous part.
\<close>

theorem auto_mapping_first_match:
  "map key DATABASE_COLUMNS =
     [''name'', ''phone'', ''email'', ''company_name'', ''job_title'', ''source_url'', ''source_platform'']
   \<and> map fst (autoMapping hs) =
        filter (\<lambda>k. \<exists>h\<in>set hs. header_matches k h) (map key DATABASE_COLUMNS)
   \<and> (\<forall>k\<in>set (map key DATABASE_COLUMNS). map_of (autoMapping hs) k = find (header_matches k) hs)
   \<and> (\<forall>k. k \<notin> set (map key DATABASE_COLUMNS) \<longrightarrow> map_of (autoMapping hs) k = None)
   \<and> (\<forall>k h. header_matches k h \<longleftrightarrow>
          toLowerCase h = toLowerCase k \<or> keyword_test k (toLowerCase h))
   \<and> (\<forall>l. keyword_test ''phone'' l \<longleftrightarrow>
          includes_str l ''phone'' \<or> includes_str l ''mobile'' \<or> includes_str l ''number'' \<or> l = ''tel'')
   \<and> (\<forall>s p. includes_str s p \<longleftrightarrow> (\<exists>a b. s = a @ p @ b))"
  by (intro conjI ballI allI impI keys_DATABASE_COLUMNS keys_autoMapping map_of_autoMapping_key
      map_of_autoMapping_other header_matches_iff keyword_test_phone includes_str_iff)

theorem auto_mapping_first_match_witness:
  "''phone'' \<in> set (map key DATABASE_COLUMNS)
   \<and> find (header_matches ''phone'') ex_headers = Some ''Contact Number''
   \<and> map_of (autoMapping ex_headers) ''phone'' = Some ''Contact Number''
   \<and> ''id'' \<notin> set (map key DATABASE_COLUMNS)
   \<and> map_of (autoMapping ex_headers) ''id'' = None
   \<and> map fst (autoMapping ex_headers) = [''name'', ''phone'', ''email'']
   \<and> header_matches ''phone'' ''TEL''
   \<and> toLowerCase ''TEL'' = ''tel'' \<and> keyword_test ''phone'' ''tel''"
proof -
  note T = auto_mapping_first_match [of ex_headers]
  have k1: "''phone'' \<in> set (map key DATABASE_COLUMNS)"
    by (simp add: DATABASE_COLUMNS_def)
  have k2: "''id'' \<notin> set (map key DATABASE_COLUMNS)"
    by (simp add: DATABASE_COLUMNS_def)
  have f: "find (header_matches ''phone'') ex_headers = Some ''Contact Number''"
    by code_simp
  have n: "find (header_matches ''name'') ex_headers = Some ''Full Name''"
    by code_simp
  have e: "find (header_matches ''email'') ex_headers = Some ''Mail''"
    by code_simp
  have o: "find (header_matches ''company_name'') ex_headers = None
           \<and> find (header_matches ''job_title'') ex_headers = None
           \<and> find (header_matches ''source_url'') ex_headers = None
           \<and> find (header_matches ''source_platform'') ex_headers = None"
    by code_simp
  note T2 = T [THEN conjunct2, THEN conjunct1]
  note T3 = T [THEN conjunct2, THEN conjunct2, THEN conjunct1, rule_format]
  note T4 = T [THEN conjunct2, THEN conjunct2, THEN conjunct2, THEN conjunct1, rule_format]
  note T5 = T [THEN conjunct2, THEN conjunct2, THEN conjunct2, THEN conjunct2, THEN conjunct1, rule_format]
  note T6 = T [THEN conjunct2, THEN conjunct2, THEN conjunct2, THEN conjunct2, THEN conjunct2, THEN conjunct1, rule_format]
  from T3 [OF k1] f have m1: "map_of (autoMapping ex_headers) ''phone'' = Some ''Contact Number''"
    by simp
  from T4 [OF k2] have m2: "map_of (autoMapping ex_headers) ''id'' = None" .
  have ex: "\<And>k. (\<exists>h\<in>set ex_headers. header_matches k h) \<longleftrightarrow> find (header_matches k) ex_headers \<noteq> None"
    by (simp only: find_not_None)
  from T2 have "map fst (autoMapping ex_headers) =
      filter (\<lambda>k. find (header_matches k) ex_headers \<noteq> None)
        [''name'', ''phone'', ''email'', ''company_name'', ''job_title'', ''source_url'', ''source_platform'']"
    by (simp only: ex T [THEN conjunct1])
  with f n e o have ks: "map fst (autoMapping ex_headers) = [''name'', ''phone'', ''email'']"
    by simp
  have lc: "toLowerCase ''TEL'' = ''tel''" by code_simp
  have kt: "keyword_test ''phone'' ''tel''" by (simp add: T6)
  from lc kt have hm: "header_matches ''phone'' ''TEL''" by (simp add: T5)
  from k1 f m1 k2 m2 ks hm lc kt show ?thesis by simp
qed

section \<open>Rows, leads and the upload handlers\<close>

lemma indexOf_from_ge: "- 1 \<le> i \<Longrightarrow> - 1 \<le> indexOf_from x ys i"
  by (induction ys arbitrary: i) auto

lemma indexOf_from_shift:
  "indexOf_from x ys i = (if indexOf_from x ys 0 = - 1 then - 1 else indexOf_from x ys 0 + i)"
proof (induction ys arbitrary: i)
  case Nil
  then show ?case by simp
next
  case (Cons y ys)
  have ge: "- 1 \<le> indexOf_from x ys 0" by (rule indexOf_from_ge) simp
  show ?case
  proof (cases "y = x")
    case True
    then show ?thesis by simp
  next
    case False
    with Cons.IH [of "i + 1"] Cons.IH [of 1] ge show ?thesis by auto
  qed
qed

lemma indexOf_Cons:
  "indexOf (h # hs) x =
     (if h = x then 0 else if indexOf hs x = - 1 then - 1 else indexOf hs x + 1)"
  using indexOf_from_shift [of x hs 1] by (simp add: indexOf_def)

lemma indexOf_ge: "- 1 \<le> indexOf hs x"
  unfolding indexOf_def by (rule indexOf_from_ge) simp

lemma at_index_Cons: "0 \<le> j \<Longrightarrow> at_index vs (j + 1) = at_index (tl vs) j"
  by (cases vs) (auto simp: at_index_def nat_add_distrib)

lemma cell_under_indexOf:
  "cell_under col hs vs =
     (if indexOf hs col \<noteq> - 1
      then (case at_index vs (indexOf hs col) of None \<Rightarrow> [] | Some v \<Rightarrow> v)
      else [])"
proof (induction hs arbitrary: vs)
  case Nil
  then show ?case by (simp add: indexOf_def)
next
  case (Cons h hs)
  show ?case
  proof (cases "h = col")
    case True
    then show ?thesis by (cases vs) (simp_all add: indexOf_Cons at_index_def)
  next
    case False
    have "0 \<le> indexOf hs col \<or> indexOf hs col = - 1"
      using indexOf_ge [of hs col] by linarith
    with False Cons.IH [of "tl vs"] show ?thesis
      by (auto simp: indexOf_Cons at_index_Cons)
  qed
qed

lemma map_row_step:
  "(\<lambda>(dbColumn, csvColumn) lead.
       if csvColumn \<noteq> [] then
         (let csvIndex = indexOf hs csvColumn
          in if csvIndex \<noteq> - 1 then
               (case at_index values csvIndex of
                  None \<Rightarrow> lead
                | Some v \<Rightarrow> if v \<noteq> [] then AList.update dbColumn v lead else lead)
             else lead)
       else lead)
   = (\<lambda>(dbColumn, csvColumn) lead.
        case cell_value hs values csvColumn of
          None \<Rightarrow> lead
        | Some v \<Rightarrow> AList.update dbColumn v lead)"
  by (intro ext) (auto simp: cell_value_def cell_under_indexOf Let_def split: option.splits)

lemma map_of_fold_cells:
  "distinct (map fst cm) \<Longrightarrow>
     map_of (fold (\<lambda>(dbColumn, csvColumn) lead.
                     case cell_value hs values csvColumn of
                       None \<Rightarrow> lead
                     | Some v \<Rightarrow> AList.update dbColumn v lead) cm acc) k =
       (case map_of cm k of
          None \<Rightarrow> map_of acc k
        | Some csvColumn \<Rightarrow>
            (case cell_value hs values csvColumn of None \<Rightarrow> map_of acc k | Some v \<Rightarrow> Some v))"
proof (induction cm arbitrary: acc)
  case Nil
  then show ?case by simp
next
  case (Cons p cm)
  obtain d c where p: "p = (d, c)" by (cases p)
  from Cons.prems p have fresh: "map_of cm d = None"
    by (simp add: map_of_eq_None_iff)
  from Cons.prems have dist: "distinct (map fst cm)" by simp
  show ?case
    using Cons.IH [OF dist] p fresh
    by (auto simp: update_conv' split: option.splits)
qed

lemma map_of_map_row:
  "distinct (map fst cm) \<Longrightarrow>
     map_of (map_row cm hs values) k =
       (case map_of cm k of None \<Rightarrow> None | Some csvColumn \<Rightarrow> cell_value hs values csvColumn)"
  unfolding map_row_def map_row_step
  by (simp add: map_of_fold_cells split: option.splits)

lemma prop_or_empty_map_row:
  "distinct (map fst cm) \<Longrightarrow> prop_or_empty (map_row cm hs values) k = mapped_cell cm hs values k"
  by (simp add: prop_or_empty_def mapped_cell_def map_of_map_row cell_value_def split: option.splits)

lemma truthy_prop_map_row:
  "distinct (map fst cm) \<Longrightarrow> truthy_prop (map_row cm hs values) k \<longleftrightarrow> mapped_cell cm hs values k \<noteq> []"
  by (simp add: truthy_prop_def mapped_cell_def map_of_map_row cell_value_def split: option.splits)

lemma valid_row_iff:
  "distinct (map fst cm) \<Longrightarrow>
     valid_row cm hs line \<longleftrightarrow>
       mapped_cell cm hs (cells line) ''name'' \<noteq> []
       \<or> mapped_cell cm hs (cells line) ''phone'' \<noteq> []
       \<or> mapped_cell cm hs (cells line) ''email'' \<noteq> []"
  by (simp add: valid_row_def Let_def truthy_prop_map_row)

lemma distinct_update: "distinct (map fst m) \<Longrightarrow> distinct (map fst (AList.update k v m))"
  by (simp add: distinct_update)

lemma distinct_handleColumnMappingChange:
  "distinct (map fst m) \<Longrightarrow> distinct (map fst (handleColumnMappingChange d c m))"
  by (simp add: handleColumnMappingChange_def distinct_update)

lemma trace_handleFileUpload:
  "fst (handleFileUpload user campaignId dbError answer st) =
     (case (csvFile st, user) of
        (Some (Inr t), Some u) \<Rightarrow>
          if campaignId = [] \<or> fst (processCSVWithMapping (columnMapping st) t) = [] then []
          else Db_insert ''uploaded_leads''
                 (leadsToInsert (get_prop u ''id'') (Str campaignId)
                    (fst (processCSVWithMapping (columnMapping st) t)))
               # (case dbError of
                    None \<Rightarrow> [Db_select ''uploaded_leads''
                               [(''campaign_id'', Str campaignId), (''user_id'', get_prop u ''id'')]]
                  | Some m \<Rightarrow> [])
      | _ \<Rightarrow> [])"
  by (cases "csvFile st"; cases user; cases dbError;
      simp add: handleFileUpload_def fetchExistingLeads_def Let_def split: sum.splits prod.splits)

lemma trace_EditCampaign_handleFileUpload:
  "fst (EditCampaign_handleFileUpload user dbError webhook st) =
     (case (csvFile st, user, campaign st) of
        (Some (Inr t), Some u, Some camp) \<Rightarrow>
          if fst (processCSVWithMapping (columnMapping st) t) = [] then []
          else Db_insert ''uploaded_leads''
                 (leadsToInsert (get_prop u ''id'') (get_prop camp ''id'')
                    (fst (processCSVWithMapping (columnMapping st) t)))
               # (case dbError of
                    None \<Rightarrow> [Http_post ''https://mazirhx.app.n8n.cloud/webhook/start-campaign-upload''
                               (Upload_form (get_prop u ''id'') camp (Inr t))]
                  | Some m \<Rightarrow> [])
      | _ \<Rightarrow> [])"
  by (cases "csvFile st"; cases user; cases "campaign st"; cases dbError;
      cases "start_campaign_webhook webhook";
      simp add: EditCampaign_handleFileUpload_def Let_def split: sum.splits prod.splits)

lemma no_leads_handleFileUpload:
  "csvFile st = Some (Inr t) \<Longrightarrow> user = Some u \<Longrightarrow> campaignId \<noteq> [] \<Longrightarrow>
   fst (processCSVWithMapping (columnMapping st) t) = [] \<Longrightarrow>
     uploadResult (snd (handleFileUpload user campaignId dbError answer st)) =
       Some \<lparr>success = False, message = ''No valid leads found in CSV file.'', leadsCount = None,
             errors = Some (''Please ensure at least one row has name, phone, or email data''
                            # snd (processCSVWithMapping (columnMapping st) t))\<rparr>"
  by (cases "processCSVWithMapping (columnMapping st) t")
     (simp add: handleFileUpload_def finish_def no_valid_leads_def Let_def)

lemma no_leads_EditCampaign_handleFileUpload:
  "csvFile st = Some (Inr t) \<Longrightarrow> user = Some u \<Longrightarrow> campaign st = Some camp \<Longrightarrow>
   fst (processCSVWithMapping (columnMapping st) t) = [] \<Longrightarrow>
     uploadResult (snd (EditCampaign_handleFileUpload user dbError webhook st)) =
       Some \<lparr>success = False, message = ''No valid leads found in CSV file.'', leadsCount = None,
             errors = Some (''Please ensure at least one row has name, phone, or email data''
                            # snd (processCSVWithMapping (columnMapping st) t))\<rparr>"
  by (cases "processCSVWithMapping (columnMapping st) t")
     (simp add: EditCampaign_handleFileUpload_def finish_def no_valid_leads_def Let_def)

lemma enumerate_tl:
  "enumerate 1 (tl xs) = map (\<lambda>i. (i, xs ! i)) [1..<length xs]"
proof (cases xs)
  case Nil
  then show ?thesis by simp
next
  case (Cons x ys)
  have "enumerate 1 ys = map (\<lambda>i. (i, (x # ys) ! i)) [1..<Suc (length ys)]"
    by (rule nth_equalityI) (simp_all add: nth_enumerate_eq del: upt_Suc)
  with Cons show ?thesis by (simp del: upt_Suc)
qed

lemma processCSVWithMapping_rows:
  "processCSVWithMapping cm csvText =
     (let lines = nonblank_lines csvText; hs = cells (hd lines);
          dat = map (\<lambda>i. (i, lines ! i)) [1..<length lines]
      in (map (\<lambda>(j, l). map_row cm hs (cells l)) (filter (\<lambda>(j, l). valid_row cm hs l) dat),
          map (\<lambda>(j, l). missing_message j) (filter (\<lambda>(j, l). \<not> valid_row cm hs l) dat)))"
  by (simp only: processCSVWithMapping_eq enumerate_tl Let_def)

lemma insert_handleFileUpload:
  "list_ex is_insert (fst (handleFileUpload user campaignId dbError answer st)) \<Longrightarrow>
     \<exists>t. csvFile st = Some (Inr t) \<and> fst (processCSVWithMapping (columnMapping st) t) \<noteq> []"
  by (auto simp: trace_handleFileUpload split: option.splits sum.splits if_splits)

lemma insert_EditCampaign_handleFileUpload:
  "list_ex is_insert (fst (EditCampaign_handleFileUpload user dbError webhook st)) \<Longrightarrow>
     \<exists>t. csvFile st = Some (Inr t) \<and> fst (processCSVWithMapping (columnMapping st) t) \<noteq> []"
  by (auto simp: trace_EditCampaign_handleFileUpload split: option.splits sum.splits if_splits)

lemma no_insert_handleFileUpload:
  "fst (processCSVWithMapping (columnMapping st) t) = [] \<Longrightarrow> csvFile st = Some (Inr t) \<Longrightarrow>
     fst (handleFileUpload user campaignId dbError answer st) = []"
  by (simp add: trace_handleFileUpload split: option.splits)

lemma no_insert_EditCampaign_handleFileUpload:
  "fst (processCSVWithMapping (columnMapping st) t) = [] \<Longrightarrow> csvFile st = Some (Inr t) \<Longrightarrow>
     fst (EditCampaign_handleFileUpload user dbError webhook st) = []"
  by (simp add: trace_EditCampaign_handleFileUpload split: option.splits)

text \<open>
  C1. Rows are validated before anything is inserted. With the non-blank lines numbered
  from 0, every data row (index 1 and up) goes to exactly one of two lists, in order: a
  row whose lead object has a truthy name, phone or email becomes a lead, and every other
  row gives the message \<open>Row i+1: Missing required data (name, phone, or email)\<close> for
  its index \<open>i\<close>. Under a mapping with one entry per database column, a row is valid
  exactly when the cell the mapping selects for name, phone or email is not empty. In
  both components \<open>handleFileUpload\<close> calls the insert only when the file was read and
  it has a lead; when it has none, the handler makes no call at all and reports the
  failure \<open>No valid leads found in CSV file.\<close> with the row messages.
\<close>

theorem rows_validated_before_insert:
  "(let lines = nonblank_lines csvText; hs = cells (hd lines);
        dat = map (\<lambda>i. (i, lines ! i)) [1..<length lines]
    in fst (processCSVWithMapping cm csvText) =
         map (\<lambda>(i, l). map_row cm hs (cells l)) (filter (\<lambda>(i, l). valid_row cm hs l) dat)
       \<and> snd (processCSVWithMapping cm csvText) =
           map (\<lambda>(i, l). ''Row '' @ show_nat (i + 1) @ '': Missing required data (name, phone, or email)'')
             (filter (\<lambda>(i, l). \<not> valid_row cm hs l) dat)
       \<and> (distinct (map fst cm) \<longrightarrow>
            (\<forall>l. valid_row cm hs l \<longleftrightarrow>
                   mapped_cell cm hs (cells l) ''name'' \<noteq> []
                   \<or> mapped_cell cm hs (cells l) ''phone'' \<noteq> []
                   \<or> mapped_cell cm hs (cells l) ''email'' \<noteq> [])))
   \<and> (list_ex is_insert (fst (handleFileUpload user campaignId dbError answer st)) \<longrightarrow>
        (\<exists>t. csvFile st = Some (Inr t) \<and> fst (processCSVWithMapping (columnMapping st) t) \<noteq> []))
   \<and> (list_ex is_insert (fst (EditCampaign_handleFileUpload user dbError webhook est)) \<longrightarrow>
        (\<exists>t. csvFile est = Some (Inr t) \<and> fst (processCSVWithMapping (columnMapping est) t) \<noteq> []))
   \<and> (csvFile st = Some (Inr t) \<and> user = Some u \<and> campaignId \<noteq> []
        \<and> fst (processCSVWithMapping (columnMapping st) t) = [] \<longrightarrow>
        fst (handleFileUpload user campaignId dbError answer st) = []
        \<and> uploadResult (snd (handleFileUpload user campaignId dbError answer st)) =
            Some \<lparr>success = False, message = ''No valid leads found in CSV file.'', leadsCount = None,
                  errors = Some (''Please ensure at least one row has name, phone, or email data''
                                 # snd (processCSVWithMapping (columnMapping st) t))\<rparr>)
   \<and> (csvFile est = Some (Inr t) \<and> user = Some u \<and> campaign est = Some camp
        \<and> fst (processCSVWithMapping (columnMapping est) t) = [] \<longrightarrow>
        fst (EditCampaign_handleFileUpload user dbError webhook est) = []
        \<and> uploadResult (snd (EditCampaign_handleFileUpload user dbError webhook est)) =
            Some \<lparr>success = False, message = ''No valid leads found in CSV file.'', leadsCount = None,
                  errors = Some (''Please ensure at least one row has name, phone, or email data''
                                 # snd (processCSVWithMapping (columnMapping est) t))\<rparr>)"
proof -
  have rows: "let lines = nonblank_lines csvText; hs = cells (hd lines);
        dat = map (\<lambda>i. (i, lines ! i)) [1..<length lines]
    in fst (processCSVWithMapping cm csvText) =
         map (\<lambda>(i, l). map_row cm hs (cells l)) (filter (\<lambda>(i, l). valid_row cm hs l) dat)
       \<and> snd (processCSVWithMapping cm csvText) =
           map (\<lambda>(i, l). ''Row '' @ show_nat (i + 1) @ '': Missing required data (name, phone, or email)'')
             (filter (\<lambda>(i, l). \<not> valid_row cm hs l) dat)
       \<and> (distinct (map fst cm) \<longrightarrow>
            (\<forall>l. valid_row cm hs l \<longleftrightarrow>
                   mapped_cell cm hs (cells l) ''name'' \<noteq> []
                   \<or> mapped_cell cm hs (cells l) ''phone'' \<noteq> []
                   \<or> mapped_cell cm hs (cells l) ''email'' \<noteq> []))"
    unfolding Let_def
    by (intro conjI impI allI valid_row_iff)
       (simp_all add: processCSVWithMapping_rows Let_def missing_message_def)
  have a: "list_ex is_insert (fst (handleFileUpload user campaignId dbError answer st)) \<longrightarrow>
        (\<exists>t. csvFile st = Some (Inr t) \<and> fst (processCSVWithMapping (columnMapping st) t) \<noteq> [])"
    using insert_handleFileUpload by blast
  have b: "list_ex is_insert (fst (EditCampaign_handleFileUpload user dbError webhook est)) \<longrightarrow>
        (\<exists>t. csvFile est = Some (Inr t) \<and> fst (processCSVWithMapping (columnMapping est) t) \<noteq> [])"
    using insert_EditCampaign_handleFileUpload by blast
  have c: "csvFile st = Some (Inr t) \<and> user = Some u \<and> campaignId \<noteq> []
        \<and> fst (processCSVWithMapping (columnMapping st) t) = [] \<longrightarrow>
        fst (handleFileUpload user campaignId dbError answer st) = []
        \<and> uploadResult (snd (handleFileUpload user campaignId dbError answer st)) =
            Some \<lparr>success = False, message = ''No valid leads found in CSV file.'', leadsCount = None,
                  errors = Some (''Please ensure at least one row has name, phone, or email data''
                                 # snd (processCSVWithMapping (columnMapping st) t))\<rparr>"
    using no_insert_handleFileUpload [of st t user campaignId dbError answer]
      no_leads_handleFileUpload [of st t user u campaignId dbError answer]
    by blast
  have d: "csvFile est = Some (Inr t) \<and> user = Some u \<and> campaign est = Some camp
        \<and> fst (processCSVWithMapping (columnMapping est) t) = [] \<longrightarrow>
        fst (EditCampaign_handleFileUpload user dbError webhook est) = []
        \<and> uploadResult (snd (EditCampaign_handleFileUpload user dbError webhook est)) =
            Some \<lparr>success = False, message = ''No valid leads found in CSV file.'', leadsCount = None,
                  errors = Some (''Please ensure at least one row has name, phone, or email data''
                                 # snd (processCSVWithMapping (columnMapping est) t))\<rparr>"
    using no_insert_EditCampaign_handleFileUpload [of est t user dbError webhook]
      no_leads_EditCampaign_handleFileUpload [of est t user u camp dbError webhook]
    by blast
  from rows a b c d show ?thesis by (intro conjI)
qed

lemma ex_lines: "nonblank_lines ex_text = [''name,phone'', ex_line, '' ,'']"
  by (simp add: nonblank_lines_def ex_text_def ex_line_def split_on_def trim_def isWhiteSpace_def)

lemma ex_cells:
  "cells ''name,phone'' = [''name'', ''phone'']"
  "cells ex_line = [''Doe'', ''Ann'', ''555'']"
  "cells '' ,'' = [[], []]"
  by (simp_all add: cells_def ex_line_def split_on_def trim_def isWhiteSpace_def remove_dquotes_def)

lemma ex_map_row:
  "map_row ex_mapping [''name'', ''phone''] [''Doe'', ''Ann'', ''555''] = [(''name'', ''Doe''), (''phone'', ''Ann'')]"
  "map_row ex_mapping [''name'', ''phone''] [[], []] = []"
  by (simp_all add: map_row_def ex_mapping_def indexOf_def at_index_def)

lemma ex_valid:
  "valid_row ex_mapping [''name'', ''phone''] ex_line"
  "\<not> valid_row ex_mapping [''name'', ''phone''] '' ,''"
  by (simp_all add: valid_row_def ex_cells ex_map_row truthy_prop_def)

lemma ex_process:
  "processCSVWithMapping ex_mapping ex_text =
     ([[(''name'', ''Doe''), (''phone'', ''Ann'')]],
      [''Row 3: Missing required data (name, phone, or email)''])"
  by code_simp

lemma ex_process_header_only: "processCSVWithMapping cm ''name'' = ([], [])"
  by (simp add: processCSVWithMapping_def split_on_def trim_def isWhiteSpace_def)

theorem rows_validated_before_insert_witness:
  "distinct (map fst ex_mapping)
   \<and> valid_row ex_mapping [''name'', ''phone''] ex_line
   \<and> mapped_cell ex_mapping [''name'', ''phone''] (cells ex_line) ''name'' = ''Doe''
   \<and> fst (processCSVWithMapping ex_mapping ex_text) = [[(''name'', ''Doe''), (''phone'', ''Ann'')]]
   \<and> snd (processCSVWithMapping ex_mapping ex_text) = [''Row 3: Missing required data (name, phone, or email)'']
   \<and> list_ex is_insert (fst (handleFileUpload (Some ex_user) ''c1'' None (Select_data None) ex_tab_state))
   \<and> list_ex is_insert (fst (EditCampaign_handleFileUpload (Some ex_user) None (Response 500) ex_edit_state))
   \<and> csvFile ex_tab_state = Some (Inr ex_text)
   \<and> fst (processCSVWithMapping (columnMapping ex_tab_state) ex_text) \<noteq> []
   \<and> fst (processCSVWithMapping (columnMapping (ex_tab_state\<lparr>csvFile := Some (Inr ''name'')\<rparr>)) ''name'') = []
   \<and> fst (handleFileUpload (Some ex_user) ''c1'' None (Select_data None)
             (ex_tab_state\<lparr>csvFile := Some (Inr ''name'')\<rparr>)) = []
   \<and> uploadResult (snd (handleFileUpload (Some ex_user) ''c1'' None (Select_data None)
                           (ex_tab_state\<lparr>csvFile := Some (Inr ''name'')\<rparr>))) =
        Some \<lparr>success = False, message = ''No valid leads found in CSV file.'', leadsCount = None,
              errors = Some [''Please ensure at least one row has name, phone, or email data'']\<rparr>
   \<and> fst (EditCampaign_handleFileUpload (Some ex_user) None (Response 500)
             (ex_edit_state\<lparr>csvFile := Some (Inr ''name'')\<rparr>)) = []
   \<and> uploadResult (snd (EditCampaign_handleFileUpload (Some ex_user) None (Response 500)
                           (ex_edit_state\<lparr>csvFile := Some (Inr ''name'')\<rparr>))) =
        Some \<lparr>success = False, message = ''No valid leads found in CSV file.'', leadsCount = None,
              errors = Some [''Please ensure at least one row has name, phone, or email data'']\<rparr>"
proof -
  note T1 = rows_validated_before_insert
    [where csvText = ex_text and cm = ex_mapping and user = "Some ex_user" and campaignId = "''c1''"
       and dbError = None and answer = "Select_data None" and st = ex_tab_state
       and webhook = "Response 500" and est = ex_edit_state and t = ex_text and u = ex_user
       and camp = ex_campaign]
  note T2 = rows_validated_before_insert
    [where csvText = ex_text and cm = ex_mapping and user = "Some ex_user" and campaignId = "''c1''"
       and dbError = None and answer = "Select_data None"
       and st = "ex_tab_state\<lparr>csvFile := Some (Inr ''name'')\<rparr>"
       and webhook = "Response 500" and est = "ex_edit_state\<lparr>csvFile := Some (Inr ''name'')\<rparr>"
       and t = "''name''" and u = ex_user and camp = ex_campaign]
  note R = T1 [THEN conjunct1, unfolded Let_def]
  note R1 = R [THEN conjunct1]
  note R2 = R [THEN conjunct2, THEN conjunct1]
  note R3 = R [THEN conjunct2, THEN conjunct2, rule_format]
  note I1 = T1 [THEN conjunct2, THEN conjunct1, rule_format]
  note N1 = T2 [THEN conjunct2, THEN conjunct2, THEN conjunct2, THEN conjunct1, rule_format]
  note N2 = T2 [THEN conjunct2, THEN conjunct2, THEN conjunct2, THEN conjunct2, rule_format]
  have dist: "distinct (map fst ex_mapping)"
    by (simp add: ex_mapping_def)
  have ins1: "list_ex is_insert (fst (handleFileUpload (Some ex_user) ''c1'' None (Select_data None) ex_tab_state))"
    by (simp add: trace_handleFileUpload ex_tab_state_def ex_process)
  have ins2: "list_ex is_insert (fst (EditCampaign_handleFileUpload (Some ex_user) None (Response 500) ex_edit_state))"
    by (simp add: trace_EditCampaign_handleFileUpload ex_edit_state_def ex_process)
  from I1 [OF ins1] have ne: "fst (processCSVWithMapping (columnMapping ex_tab_state) ex_text) \<noteq> []"
    by (simp add: ex_tab_state_def)
  from R3 [OF dist, of ex_line] have v: "valid_row ex_mapping [''name'', ''phone''] ex_line \<longleftrightarrow>
       mapped_cell ex_mapping [''name'', ''phone''] (cells ex_line) ''name'' \<noteq> []
       \<or> mapped_cell ex_mapping [''name'', ''phone''] (cells ex_line) ''phone'' \<noteq> []
       \<or> mapped_cell ex_mapping [''name'', ''phone''] (cells ex_line) ''email'' \<noteq> []"
    by (simp add: ex_lines ex_cells)
  have mc: "mapped_cell ex_mapping [''name'', ''phone''] (cells ex_line) ''name'' = ''Doe''"
    by (simp add: mapped_cell_def ex_mapping_def ex_cells)
  from v mc have vr: "valid_row ex_mapping [''name'', ''phone''] ex_line" by simp
  from R1 R2 have pr: "fst (processCSVWithMapping ex_mapping ex_text) = [[(''name'', ''Doe''), (''phone'', ''Ann'')]]
      \<and> snd (processCSVWithMapping ex_mapping ex_text) = [''Row 3: Missing required data (name, phone, or email)'']"
    using ex_process by simp
  have h: "fst (processCSVWithMapping (columnMapping (ex_tab_state\<lparr>csvFile := Some (Inr ''name'')\<rparr>)) ''name'') = []"
    by (simp add: ex_process_header_only)
  have g1: "csvFile (ex_tab_state\<lparr>csvFile := Some (Inr ''name'')\<rparr>) = Some (Inr ''name'')
      \<and> Some ex_user = Some ex_user \<and> ''c1'' \<noteq> []
      \<and> fst (processCSVWithMapping (columnMapping (ex_tab_state\<lparr>csvFile := Some (Inr ''name'')\<rparr>)) ''name'') = []"
    by (simp add: ex_process_header_only)
  have g2: "csvFile (ex_edit_state\<lparr>csvFile := Some (Inr ''name'')\<rparr>) = Some (Inr ''name'')
      \<and> Some ex_user = Some ex_user
      \<and> campaign (ex_edit_state\<lparr>csvFile := Some (Inr ''name'')\<rparr>) = Some ex_campaign
      \<and> fst (processCSVWithMapping (columnMapping (ex_edit_state\<lparr>csvFile := Some (Inr ''name'')\<rparr>)) ''name'') = []"
    by (simp add: ex_process_header_only ex_edit_state_def)
  from N1 [OF g1] have nl1: "fst (handleFileUpload (Some ex_user) ''c1'' None (Select_data None)
             (ex_tab_state\<lparr>csvFile := Some (Inr ''name'')\<rparr>)) = []
     \<and> uploadResult (snd (handleFileUpload (Some ex_user) ''c1'' None (Select_data None)
                           (ex_tab_state\<lparr>csvFile := Some (Inr ''name'')\<rparr>))) =
        Some \<lparr>success = False, message = ''No valid leads found in CSV file.'', leadsCount = None,
              errors = Some [''Please ensure at least one row has name, phone, or email data'']\<rparr>"
    by (simp add: ex_process_header_only)
  from N2 [OF g2] have nl2: "fst (EditCampaign_handleFileUpload (Some ex_user) None (Response 500)
             (ex_edit_state\<lparr>csvFile := Some (Inr ''name'')\<rparr>)) = []
     \<and> uploadResult (snd (EditCampaign_handleFileUpload (Some ex_user) None (Response 500)
                           (ex_edit_state\<lparr>csvFile := Some (Inr ''name'')\<rparr>))) =
        Some \<lparr>success = False, message = ''No valid leads found in CSV file.'', leadsCount = None,
              errors = Some [''Please ensure at least one row has name, phone, or email data'']\<rparr>"
    by (simp add: ex_process_header_only)
  have cf: "csvFile ex_tab_state = Some (Inr ex_text)" by (simp add: ex_tab_state_def)
  from dist vr mc pr [THEN conjunct1] pr [THEN conjunct2] ins1 ins2 cf ne h
    nl1 [THEN conjunct1] nl1 [THEN conjunct2] nl2 [THEN conjunct1] nl2 [THEN conjunct2]
  show ?thesis by (intro conjI)
qed

lemma leadsToInsert_row:
  "row \<in> set (leadsToInsert uid cid leads) \<Longrightarrow>
     \<exists>lead\<in>set leads.
       get_prop row ''status'' = Str ''pending'' \<and> get_prop row ''user_id'' = uid
       \<and> get_prop row ''campaign_id'' = cid
       \<and> (\<forall>k\<in>set (map key DATABASE_COLUMNS). get_prop row k = Str (prop_or_empty lead k))"
  by (auto simp: leadsToInsert_def get_prop_def DATABASE_COLUMNS_def)

lemma lead_of_line:
  "lead \<in> set (fst (processCSVWithMapping cm t)) \<Longrightarrow>
     \<exists>line\<in>set (tl (nonblank_lines t)).
       lead = map_row cm (cells (hd (nonblank_lines t))) (cells line)"
  by (auto simp: leads_processCSVWithMapping)

lemma inserted_row_shape:
  assumes "distinct (map fst cm)" and "row \<in> set (leadsToInsert uid cid (fst (processCSVWithMapping cm t)))"
  shows "get_prop row ''status'' = Str ''pending'' \<and> get_prop row ''user_id'' = uid
         \<and> get_prop row ''campaign_id'' = cid
         \<and> (\<exists>line\<in>set (tl (nonblank_lines t)).
               \<forall>k\<in>set (map key DATABASE_COLUMNS).
                 get_prop row k = Str (mapped_cell cm (cells (hd (nonblank_lines t))) (cells line) k))"
proof -
  from leadsToInsert_row [OF assms(2)] obtain lead where
    lead: "lead \<in> set (fst (processCSVWithMapping cm t))" and
    fixed: "get_prop row ''status'' = Str ''pending''" "get_prop row ''user_id'' = uid"
      "get_prop row ''campaign_id'' = cid" and
    fields: "\<forall>k\<in>set (map key DATABASE_COLUMNS). get_prop row k = Str (prop_or_empty lead k)"
    by blast
  from lead_of_line [OF lead] obtain line where
    line: "line \<in> set (tl (nonblank_lines t))" and
    eq: "lead = map_row cm (cells (hd (nonblank_lines t))) (cells line)"
    by blast
  from fields eq assms(1)
  have "\<forall>k\<in>set (map key DATABASE_COLUMNS).
          get_prop row k = Str (mapped_cell cm (cells (hd (nonblank_lines t))) (cells line) k)"
    by (simp add: prop_or_empty_map_row)
  with line fixed show ?thesis by blast
qed

lemma inserted_handleFileUpload:
  "Db_insert tbl rws \<in> set (fst (handleFileUpload user campaignId dbError answer st)) \<Longrightarrow>
     \<exists>u t. user = Some u \<and> csvFile st = Some (Inr t) \<and> tbl = ''uploaded_leads''
       \<and> rws = leadsToInsert (get_prop u ''id'') (Str campaignId)
                 (fst (processCSVWithMapping (columnMapping st) t))"
  by (cases "csvFile st"; cases user)
     (auto simp: trace_handleFileUpload split: option.splits sum.splits if_splits)

lemma inserted_EditCampaign_handleFileUpload:
  "Db_insert tbl rws \<in> set (fst (EditCampaign_handleFileUpload user dbError webhook st)) \<Longrightarrow>
     \<exists>u t camp. user = Some u \<and> csvFile st = Some (Inr t) \<and> campaign st = Some camp
       \<and> tbl = ''uploaded_leads''
       \<and> fst (processCSVWithMapping (columnMapping st) t) \<noteq> []
       \<and> rws = leadsToInsert (get_prop u ''id'') (get_prop camp ''id'')
                 (fst (processCSVWithMapping (columnMapping st) t))"
  by (cases "csvFile st"; cases user; cases "campaign st")
     (auto simp: trace_EditCampaign_handleFileUpload split: option.splits sum.splits if_splits)

text \<open>
  C10. Every row that the CSV upload of either component hands to the insert into
  \<open>uploaded_leads\<close> has \<open>status = 'pending'\<close>, the user's id as \<open>user_id\<close> and the
  campaign's id as \<open>campaign_id\<close>, and it comes from a data line of the file such that
  each of the seven fields is the string the mapping selects in that line: the mapped
  cell when it is present, the empty string (not null) otherwise. The mapping has one
  entry per database column, as a JavaScript object has.
\<close>

theorem uploaded_lead_row_shape:
  "(distinct (map fst (columnMapping st))
    \<and> Db_insert tbl rws \<in> set (fst (handleFileUpload user campaignId dbError answer st))
    \<and> row \<in> set rws \<longrightarrow>
      (\<exists>u t. user = Some u \<and> csvFile st = Some (Inr t) \<and> tbl = ''uploaded_leads''
         \<and> get_prop row ''status'' = Str ''pending''
         \<and> get_prop row ''user_id'' = get_prop u ''id''
         \<and> get_prop row ''campaign_id'' = Str campaignId
         \<and> (\<exists>line\<in>set (tl (nonblank_lines t)).
               \<forall>k\<in>set (map key DATABASE_COLUMNS).
                 get_prop row k =
                   Str (mapped_cell (columnMapping st) (cells (hd (nonblank_lines t))) (cells line) k))))
   \<and> (distinct (map fst (columnMapping est))
       \<and> Db_insert tbl rws \<in> set (fst (EditCampaign_handleFileUpload user dbError webhook est))
       \<and> row \<in> set rws \<longrightarrow>
      (\<exists>u t camp. user = Some u \<and> csvFile est = Some (Inr t) \<and> campaign est = Some camp
         \<and> tbl = ''uploaded_leads''
         \<and> get_prop row ''status'' = Str ''pending''
         \<and> get_prop row ''user_id'' = get_prop u ''id''
         \<and> get_prop row ''campaign_id'' = get_prop camp ''id''
         \<and> (\<exists>line\<in>set (tl (nonblank_lines t)).
               \<forall>k\<in>set (map key DATABASE_COLUMNS).
                 get_prop row k =
                   Str (mapped_cell (columnMapping est) (cells (hd (nonblank_lines t))) (cells line) k))))"
proof (intro conjI impI)
  assume a: "distinct (map fst (columnMapping st))
    \<and> Db_insert tbl rws \<in> set (fst (handleFileUpload user campaignId dbError answer st))
    \<and> row \<in> set rws"
  then obtain u t where g: "user = Some u" "csvFile st = Some (Inr t)" "tbl = ''uploaded_leads''"
    and rws: "rws = leadsToInsert (get_prop u ''id'') (Str campaignId)
                 (fst (processCSVWithMapping (columnMapping st) t))"
    using inserted_handleFileUpload [of tbl rws user campaignId dbError answer st] by blast
  from a rws have "row \<in> set (leadsToInsert (get_prop u ''id'') (Str campaignId)
                 (fst (processCSVWithMapping (columnMapping st) t)))" by simp
  from inserted_row_shape [OF _ this] a g
  show "\<exists>u t. user = Some u \<and> csvFile st = Some (Inr t) \<and> tbl = ''uploaded_leads''
         \<and> get_prop row ''status'' = Str ''pending''
         \<and> get_prop row ''user_id'' = get_prop u ''id''
         \<and> get_prop row ''campaign_id'' = Str campaignId
         \<and> (\<exists>line\<in>set (tl (nonblank_lines t)).
               \<forall>k\<in>set (map key DATABASE_COLUMNS).
                 get_prop row k =
                   Str (mapped_cell (columnMapping st) (cells (hd (nonblank_lines t))) (cells line) k))"
    by blast
next
  assume a: "distinct (map fst (columnMapping est))
       \<and> Db_insert tbl rws \<in> set (fst (EditCampaign_handleFileUpload user dbError webhook est))
       \<and> row \<in> set rws"
  then obtain u t camp where g: "user = Some u" "csvFile est = Some (Inr t)" "campaign est = Some camp"
      "tbl = ''uploaded_leads''"
    and rws: "rws = leadsToInsert (get_prop u ''id'') (get_prop camp ''id'')
                 (fst (processCSVWithMapping (columnMapping est) t))"
    using inserted_EditCampaign_handleFileUpload [of tbl rws user dbError webhook est] by blast
  from a rws have "row \<in> set (leadsToInsert (get_prop u ''id'') (get_prop camp ''id'')
                 (fst (processCSVWithMapping (columnMapping est) t)))" by simp
  from inserted_row_shape [OF _ this] a g
  show "\<exists>u t camp. user = Some u \<and> csvFile est = Some (Inr t) \<and> campaign est = Some camp
         \<and> tbl = ''uploaded_leads''
         \<and> get_prop row ''status'' = Str ''pending''
         \<and> get_prop row ''user_id'' = get_prop u ''id''
         \<and> get_prop row ''campaign_id'' = get_prop camp ''id''
         \<and> (\<exists>line\<in>set (tl (nonblank_lines t)).
               \<forall>k\<in>set (map key DATABASE_COLUMNS).
                 get_prop row k =
                   Str (mapped_cell (columnMapping est) (cells (hd (nonblank_lines t))) (cells line) k))"
    by blast
qed

lemma ex_trace_tab:
  "fst (handleFileUpload (Some ex_user) ''c1'' None (Select_data None) ex_tab_state) =
     [Db_insert ''uploaded_leads'' [ex_row],
      Db_select ''uploaded_leads'' [(''campaign_id'', Str ''c1''), (''user_id'', Str ''u1'')]]"
  by (simp add: trace_handleFileUpload ex_tab_state_def ex_process leadsToInsert_def ex_row_def
        ex_user_def get_prop_def prop_or_empty_def)

lemma ex_trace_edit:
  "fst (EditCampaign_handleFileUpload (Some ex_user) None (Response 500) ex_edit_state) =
     [Db_insert ''uploaded_leads'' [ex_row],
      Http_post ''https://mazirhx.app.n8n.cloud/webhook/start-campaign-upload''
        (Upload_form (Str ''u1'') ex_campaign (Inr ex_text))]"
  by (simp add: trace_EditCampaign_handleFileUpload ex_edit_state_def ex_process leadsToInsert_def
        ex_row_def ex_user_def ex_campaign_def get_prop_def prop_or_empty_def)

theorem uploaded_lead_row_shape_witness:
  "distinct (map fst (columnMapping ex_tab_state))
   \<and> Db_insert ''uploaded_leads'' [ex_row]
        \<in> set (fst (handleFileUpload (Some ex_user) ''c1'' None (Select_data None) ex_tab_state))
   \<and> distinct (map fst (columnMapping ex_edit_state))
   \<and> Db_insert ''uploaded_leads'' [ex_row]
        \<in> set (fst (EditCampaign_handleFileUpload (Some ex_user) None (Response 500) ex_edit_state))
   \<and> ex_row \<in> set [ex_row]
   \<and> get_prop ex_row ''status'' = Str ''pending''
   \<and> get_prop ex_row ''user_id'' = get_prop ex_user ''id''
   \<and> get_prop ex_row ''campaign_id'' = get_prop ex_campaign ''id''
   \<and> (\<exists>line\<in>set (tl (nonblank_lines ex_text)).
         \<forall>k\<in>set (map key DATABASE_COLUMNS).
           get_prop ex_row k =
             Str (mapped_cell ex_mapping (cells (hd (nonblank_lines ex_text))) (cells line) k))
   \<and> get_prop ex_row ''name'' = Str ''Doe'' \<and> get_prop ex_row ''email'' = Str []"
proof -
  note T = uploaded_lead_row_shape
    [where st = ex_tab_state and tbl = "''uploaded_leads''" and rws = "[ex_row]"
       and user = "Some ex_user" and campaignId = "''c1''" and dbError = None
       and answer = "Select_data None" and row = ex_row and est = ex_edit_state
       and webhook = "Response 500"]
  have d1: "distinct (map fst (columnMapping ex_tab_state))"
    by (simp add: ex_tab_state_def ex_mapping_def)
  have d2: "distinct (map fst (columnMapping ex_edit_state))"
    by (simp add: ex_edit_state_def ex_mapping_def)
  have i1: "Db_insert ''uploaded_leads'' [ex_row]
        \<in> set (fst (handleFileUpload (Some ex_user) ''c1'' None (Select_data None) ex_tab_state))"
    by (simp add: ex_trace_tab)
  have i2: "Db_insert ''uploaded_leads'' [ex_row]
        \<in> set (fst (EditCampaign_handleFileUpload (Some ex_user) None (Response 500) ex_edit_state))"
    by (simp add: ex_trace_edit)
  have m: "ex_row \<in> set [ex_row]" by simp
  have cf: "csvFile ex_tab_state = Some (Inr ex_text)" "columnMapping ex_tab_state = ex_mapping"
    by (simp_all add: ex_tab_state_def)
  have ce: "csvFile ex_edit_state = Some (Inr ex_text)" "columnMapping ex_edit_state = ex_mapping"
      "campaign ex_edit_state = Some ex_campaign"
    by (simp_all add: ex_edit_state_def)
  from T [THEN conjunct1, rule_format, OF conjI [OF d1 conjI [OF i1 m]]] cf
  have a: "get_prop ex_row ''status'' = Str ''pending''
      \<and> get_prop ex_row ''user_id'' = get_prop ex_user ''id''
      \<and> (\<exists>line\<in>set (tl (nonblank_lines ex_text)).
            \<forall>k\<in>set (map key DATABASE_COLUMNS).
              get_prop ex_row k =
                Str (mapped_cell ex_mapping (cells (hd (nonblank_lines ex_text))) (cells line) k))"
    by auto
  from T [THEN conjunct2, rule_format, OF conjI [OF d2 conjI [OF i2 m]]] ce
  have b: "get_prop ex_row ''campaign_id'' = get_prop ex_campaign ''id''"
    by auto
  have c: "get_prop ex_row ''name'' = Str ''Doe''" "get_prop ex_row ''email'' = Str []"
    by (simp_all add: ex_row_def get_prop_def)
  from d1 i1 d2 i2 m a [THEN conjunct1] a [THEN conjunct2, THEN conjunct1] b
    a [THEN conjunct2, THEN conjunct2] c
  show ?thesis by (intro conjI)
qed

section \<open>The webhook\<close>

lemma result_EditCampaign_upload:
  "csvFile st = Some (Inr t) \<Longrightarrow> user = Some u \<Longrightarrow> campaign st = Some camp \<Longrightarrow>
   fst (processCSVWithMapping (columnMapping st) t) \<noteq> [] \<Longrightarrow>
     uploadResult (snd (EditCampaign_handleFileUpload user None webhook st)) =
       Some \<lparr>success = True,
             message = ''Successfully uploaded ''
                       @ show_nat (length (fst (processCSVWithMapping (columnMapping st) t)))
                       @ '' leads to the database!'',
             leadsCount = Some (length (fst (processCSVWithMapping (columnMapping st) t))),
             errors = Some (if fst (start_campaign_webhook webhook) then []
                            else [''Note: Leads saved to database successfully, but automation webhook failed.'',
                                  or_default (snd (start_campaign_webhook webhook)) ''Webhook connection failed''])\<rparr>"
  by (cases "processCSVWithMapping (columnMapping st) t"; cases "start_campaign_webhook webhook")
     (simp add: EditCampaign_handleFileUpload_def finish_def reset_form_def Let_def)

lemma webhook_failed:
  "\<forall>s. webhook = Response s \<longrightarrow> \<not> ok s \<Longrightarrow>
     \<not> fst (start_campaign_webhook webhook)
     \<and> or_default (snd (start_campaign_webhook webhook)) ''Webhook connection failed'' =
         (case webhook of
            Response s \<Rightarrow> ''Webhook failed with status: '' @ show_nat s
          | Rejected e \<Rightarrow> ''Webhook error: '' @ message_or e ''Unknown error'')"
  by (cases webhook) (simp_all add: start_campaign_webhook_def or_default_def)

lemma webhook_ok:
  "fst (start_campaign_webhook webhook) \<longleftrightarrow> (\<exists>s. webhook = Response s \<and> ok s)"
  by (cases webhook) (simp_all add: start_campaign_webhook_def)

lemma length_leadsToInsert: "length (leadsToInsert uid cid leads) = length leads"
  by (simp add: leadsToInsert_def)

text \<open>
  C4. In \<open>EditCampaign\<close>, when the insert into \<open>uploaded_leads\<close> was made and answered
  without error, and the webhook answers with a status outside 200..299 or the call
  throws, the result is still a success with the number of inserted leads; the failure
  of the webhook appears only as a note and a reason in \<open>errors\<close>.
\<close>

theorem webhook_failure_non_fatal:
  assumes "Db_insert tbl rws \<in> set (fst (EditCampaign_handleFileUpload user None webhook st))"
    and "\<forall>s. webhook = Response s \<longrightarrow> \<not> ok s"
  shows "uploadResult (snd (EditCampaign_handleFileUpload user None webhook st)) =
           Some \<lparr>success = True,
                 message = ''Successfully uploaded '' @ show_nat (length rws) @ '' leads to the database!'',
                 leadsCount = Some (length rws),
                 errors = Some [''Note: Leads saved to database successfully, but automation webhook failed.'',
                                (case webhook of
                                   Response s \<Rightarrow> ''Webhook failed with status: '' @ show_nat s
                                 | Rejected e \<Rightarrow> ''Webhook error: '' @ message_or e ''Unknown error'')]\<rparr>"
proof -
  from inserted_EditCampaign_handleFileUpload [OF assms(1)]
  obtain u t camp where g: "user = Some u" "csvFile st = Some (Inr t)" "campaign st = Some camp"
      "fst (processCSVWithMapping (columnMapping st) t) \<noteq> []"
    and rws: "rws = leadsToInsert (get_prop u ''id'') (get_prop camp ''id'')
                 (fst (processCSVWithMapping (columnMapping st) t))"
    by blast
  from rws have len: "length (fst (processCSVWithMapping (columnMapping st) t)) = length rws"
    by (simp add: length_leadsToInsert)
  from result_EditCampaign_upload [OF g(2) g(1) g(3) g(4), of webhook] webhook_failed [OF assms(2)] len
  show ?thesis by simp
qed

lemma show_nat_500: "show_nat 500 = ''500''"
  by code_simp

lemma show_nat_1: "show_nat (Suc 0) = ''1''"
  by code_simp

theorem webhook_failure_non_fatal_witness:
  "Db_insert ''uploaded_leads'' [ex_row]
     \<in> set (fst (EditCampaign_handleFileUpload (Some ex_user) None (Response 500) ex_edit_state))
   \<and> \<not> ok 500
   \<and> uploadResult (snd (EditCampaign_handleFileUpload (Some ex_user) None (Response 500) ex_edit_state)) =
        Some \<lparr>success = True, message = ''Successfully uploaded 1 leads to the database!'',
              leadsCount = Some 1,
              errors = Some [''Note: Leads saved to database successfully, but automation webhook failed.'',
                             ''Webhook failed with status: 500'']\<rparr>
   \<and> Db_insert ''uploaded_leads'' [ex_row]
     \<in> set (fst (EditCampaign_handleFileUpload (Some ex_user) None (Rejected (Error ''Failed to fetch'')) ex_edit_state))
   \<and> uploadResult (snd (EditCampaign_handleFileUpload (Some ex_user) None (Rejected (Error ''Failed to fetch'')) ex_edit_state)) =
        Some \<lparr>success = True, message = ''Successfully uploaded 1 leads to the database!'',
              leadsCount = Some 1,
              errors = Some [''Note: Leads saved to database successfully, but automation webhook failed.'',
                             ''Webhook error: Failed to fetch'']\<rparr>"
proof -
  have i1: "Db_insert ''uploaded_leads'' [ex_row]
     \<in> set (fst (EditCampaign_handleFileUpload (Some ex_user) None (Response 500) ex_edit_state))"
    by (simp add: ex_trace_edit)
  have i2: "Db_insert ''uploaded_leads'' [ex_row]
     \<in> set (fst (EditCampaign_handleFileUpload (Some ex_user) None (Rejected (Error ''Failed to fetch'')) ex_edit_state))"
    by (simp add: trace_EditCampaign_handleFileUpload ex_edit_state_def ex_process leadsToInsert_def
        ex_row_def ex_user_def ex_campaign_def get_prop_def prop_or_empty_def)
  have n1: "\<forall>s. Response 500 = Response s \<longrightarrow> \<not> ok s"
    by (simp add: ok_def)
  have n2: "\<forall>s. Rejected (Error ''Failed to fetch'') = Response s \<longrightarrow> \<not> ok s"
    by simp
  from webhook_failure_non_fatal [OF i1 n1]
  have r1: "uploadResult (snd (EditCampaign_handleFileUpload (Some ex_user) None (Response 500) ex_edit_state)) =
        Some \<lparr>success = True, message = ''Successfully uploaded 1 leads to the database!'',
              leadsCount = Some 1,
              errors = Some [''Note: Leads saved to database successfully, but automation webhook failed.'',
                             ''Webhook failed with status: 500'']\<rparr>"
    by (simp add: show_nat_500 show_nat_1)
  from webhook_failure_non_fatal [OF i2 n2]
  have r2: "uploadResult (snd (EditCampaign_handleFileUpload (Some ex_user) None (Rejected (Error ''Failed to fetch'')) ex_edit_state)) =
        Some \<lparr>success = True, message = ''Successfully uploaded 1 leads to the database!'',
              leadsCount = Some 1,
              errors = Some [''Note: Leads saved to database successfully, but automation webhook failed.'',
                             ''Webhook error: Failed to fetch'']\<rparr>"
    by (simp add: show_nat_1)
  have n0: "\<not> ok 500" by (simp add: ok_def)
  from i1 n0 r1 i2 r2 show ?thesis by (intro conjI)
qed

lemma trace_triggerChannelsEngine:
  "fst (triggerChannelsEngine user webhook st) =
     (case (campaign st, user) of
        (Some camp, Some u) \<Rightarrow>
          [Http_post ''https://mazirhx.app.n8n.cloud/webhook/channels-engine''
             (Json_body [(''user_id'', get_prop u ''id''), (''campaign_id'', get_prop camp ''id''),
                         (''trigger_type'', Str ''manual'')])]
      | _ \<Rightarrow> [])"
  by (cases "campaign st"; cases user; cases webhook)
     (simp_all add: triggerChannelsEngine_def Let_def)

lemma result_triggerChannelsEngine:
  "campaign st = Some camp \<Longrightarrow> user = Some u \<Longrightarrow>
     uploadResult (snd (triggerChannelsEngine user webhook st)) =
       Some (if \<exists>s. webhook = Response s \<and> ok s
             then \<lparr>success = True, message = ''Channels engine triggered successfully!'',
                   leadsCount = None, errors = None\<rparr>
             else \<lparr>success = False, message = ''Failed to trigger channels engine. Please try again.'',
                   leadsCount = None, errors = None\<rparr>)"
  by (cases webhook) (simp_all add: triggerChannelsEngine_def Let_def)

lemma posted_EditCampaign_handleFileUpload:
  "list_ex is_post (fst (EditCampaign_handleFileUpload user dbError webhook st)) \<Longrightarrow>
     \<exists>u t camp. user = Some u \<and> csvFile st = Some (Inr t) \<and> campaign st = Some camp
       \<and> dbError = None \<and> fst (processCSVWithMapping (columnMapping st) t) \<noteq> []"
  by (cases "csvFile st"; cases user; cases "campaign st"; cases dbError)
     (auto simp: trace_EditCampaign_handleFileUpload split: sum.splits if_splits)

lemma posted_triggerChannelsEngine:
  "list_ex is_post (fst (triggerChannelsEngine user webhook st)) \<Longrightarrow>
     \<exists>u camp. user = Some u \<and> campaign st = Some camp"
  by (cases "campaign st"; cases user) (simp_all add: trace_triggerChannelsEngine)

lemma posts_EditCampaign_handleFileUpload:
  "length (filter is_post (fst (EditCampaign_handleFileUpload user dbError webhook st))) \<le> 1"
  by (cases "csvFile st"; cases user; cases "campaign st"; cases dbError)
     (simp_all add: trace_EditCampaign_handleFileUpload split: sum.splits)

lemma posts_handleFileUpload:
  "filter is_post (fst (handleFileUpload user campaignId dbError answer st)) = []"
  by (cases "csvFile st"; cases user; cases dbError)
     (simp_all add: trace_handleFileUpload split: sum.splits)

lemma posts_triggerChannelsEngine:
  "length (filter is_post (fst (triggerChannelsEngine user webhook st))) \<le> 1"
  by (cases "campaign st"; cases user) (simp_all add: trace_triggerChannelsEngine)

lemma report_triggerChannelsEngine:
  assumes "list_ex is_post (fst (triggerChannelsEngine user webhook st))"
  shows "\<exists>r. uploadResult (snd (triggerChannelsEngine user webhook st)) = Some r
           \<and> (success r \<longleftrightarrow> (\<exists>s. webhook = Response s \<and> ok s))
           \<and> message r = (if success r then ''Channels engine triggered successfully!''
                           else ''Failed to trigger channels engine. Please try again.'')"
proof -
  from posted_triggerChannelsEngine [OF assms] obtain u camp
    where "campaign st = Some camp" "user = Some u" by blast
  from result_triggerChannelsEngine [OF this, of webhook] show ?thesis
    by (cases "\<exists>s. webhook = Response s \<and> ok s") simp_all
qed

lemma report_EditCampaign_handleFileUpload:
  assumes "list_ex is_post (fst (EditCampaign_handleFileUpload user dbError webhook st))"
  shows "\<exists>r. uploadResult (snd (EditCampaign_handleFileUpload user dbError webhook st)) = Some r
           \<and> (errors r = Some [] \<longleftrightarrow> (\<exists>s. webhook = Response s \<and> ok s))
           \<and> (errors r = Some []
               \<or> (\<exists>reason. errors r =
                     Some [''Note: Leads saved to database successfully, but automation webhook failed.'',
                           reason]))"
proof -
  from posted_EditCampaign_handleFileUpload [OF assms] obtain u t camp
    where g: "csvFile st = Some (Inr t)" "user = Some u" "campaign st = Some camp"
      "fst (processCSVWithMapping (columnMapping st) t) \<noteq> []" and db: "dbError = None"
    by blast
  from result_EditCampaign_upload [OF g, of webhook] db show ?thesis
    by (simp add: webhook_ok)
qed

text \<open>
  C5. One run of a handler posts to the webhook at most once, whatever the answers are:
  the upload of \<open>EditCampaign\<close> and \<open>triggerChannelsEngine\<close> at most once, the upload of
  \<open>UploadLeadsTab\<close> never. When the post was made its outcome is reported as one of two:
  \<open>triggerChannelsEngine\<close> reports success exactly when the response is ok and failure
  otherwise; the upload reports an empty \<open>errors\<close> list exactly when the response is ok
  and the note with a reason otherwise.
\<close>

theorem single_webhook_call:
  "length (filter is_post (fst (EditCampaign_handleFileUpload user dbError webhook est))) \<le> 1
   \<and> filter is_post (fst (handleFileUpload user campaignId dbError answer st)) = []
   \<and> length (filter is_post (fst (triggerChannelsEngine user webhook est))) \<le> 1
   \<and> (list_ex is_post (fst (triggerChannelsEngine user webhook est)) \<longrightarrow>
        (\<exists>r. uploadResult (snd (triggerChannelsEngine user webhook est)) = Some r
           \<and> (success r \<longleftrightarrow> (\<exists>s. webhook = Response s \<and> ok s))
           \<and> message r = (if success r then ''Channels engine triggered successfully!''
                           else ''Failed to trigger channels engine. Please try again.'')))
   \<and> (list_ex is_post (fst (EditCampaign_handleFileUpload user dbError webhook est)) \<longrightarrow>
        (\<exists>r. uploadResult (snd (EditCampaign_handleFileUpload user dbError webhook est)) = Some r
           \<and> (errors r = Some [] \<longleftrightarrow> (\<exists>s. webhook = Response s \<and> ok s))
           \<and> (errors r = Some []
               \<or> (\<exists>reason. errors r =
                     Some [''Note: Leads saved to database successfully, but automation webhook failed.'',
                           reason]))))"
  by (intro conjI impI posts_EditCampaign_handleFileUpload posts_handleFileUpload
      posts_triggerChannelsEngine report_triggerChannelsEngine report_EditCampaign_handleFileUpload)

theorem single_webhook_call_witness:
  "list_ex is_post (fst (triggerChannelsEngine (Some ex_user) (Response 500) ex_edit_state))
   \<and> length (filter is_post (fst (triggerChannelsEngine (Some ex_user) (Response 500) ex_edit_state))) = 1
   \<and> (\<exists>r. uploadResult (snd (triggerChannelsEngine (Some ex_user) (Response 500) ex_edit_state)) = Some r
          \<and> \<not> success r \<and> message r = ''Failed to trigger channels engine. Please try again.'')
   \<and> list_ex is_post (fst (EditCampaign_handleFileUpload (Some ex_user) None (Response 500) ex_edit_state))
   \<and> length (filter is_post (fst (EditCampaign_handleFileUpload (Some ex_user) None (Response 500) ex_edit_state))) = 1
   \<and> (\<exists>r. uploadResult (snd (EditCampaign_handleFileUpload (Some ex_user) None (Response 500) ex_edit_state)) = Some r
          \<and> errors r \<noteq> Some [])"
proof -
  note T = single_webhook_call
    [where user = "Some ex_user" and dbError = None and webhook = "Response 500"
       and est = ex_edit_state and campaignId = "''c1''" and answer = "Select_data None"
       and st = ex_tab_state]
  have p1: "list_ex is_post (fst (triggerChannelsEngine (Some ex_user) (Response 500) ex_edit_state))"
    by (simp add: trace_triggerChannelsEngine ex_edit_state_def)
  have c1: "length (filter is_post (fst (triggerChannelsEngine (Some ex_user) (Response 500) ex_edit_state))) = 1"
    by (simp add: trace_triggerChannelsEngine ex_edit_state_def)
  have p2: "list_ex is_post (fst (EditCampaign_handleFileUpload (Some ex_user) None (Response 500) ex_edit_state))"
    by (simp add: ex_trace_edit)
  have c2: "length (filter is_post (fst (EditCampaign_handleFileUpload (Some ex_user) None (Response 500) ex_edit_state))) = 1"
    by (simp add: ex_trace_edit)
  have nok: "\<not> (\<exists>s. Response 500 = Response s \<and> ok s)"
    by (simp add: ok_def)
  from T [THEN conjunct2, THEN conjunct2, THEN conjunct2, THEN conjunct1, rule_format, OF p1] nok
  have shape: "\<exists>r. uploadResult (snd (triggerChannelsEngine (Some ex_user) (Response 500) ex_edit_state)) = Some r
          \<and> \<not> success r \<and> message r = ''Failed to trigger channels engine. Please try again.''"
    by auto
  from T [THEN conjunct2, THEN conjunct2, THEN conjunct2, THEN conjunct2, rule_format, OF p2] nok
  have e: "\<exists>r. uploadResult (snd (EditCampaign_handleFileUpload (Some ex_user) None (Response 500) ex_edit_state)) = Some r
          \<and> errors r \<noteq> Some []"
    by auto
  from p1 c1 shape p2 c2 e show ?thesis by (intro conjI)
qed

section \<open>Sequence steps\<close>

lemma map_enumerate_index:
  "map (\<lambda>(i, x). f i) (enumerate n xs) = map f [n..<n + length xs]"
  by (induction xs arbitrary: n) (simp_all add: upt_rec)

lemma step_numbers_removeStep:
  "map step_number (removeStep index steps) = map int [1..<Suc (length (removeStep index steps))]"
proof -
  let ?new = "map snd (filter (\<lambda>(i, _). int i \<noteq> index) (enumerate 0 steps))"
  have len: "length (removeStep index steps) = length ?new"
    by (simp add: removeStep_def Let_def)
  have "map step_number (removeStep index steps) = map (\<lambda>(i, s). int i + 1) (enumerate 0 ?new)"
    by (simp add: removeStep_def Let_def case_prod_beta comp_def)
  also have "\<dots> = map (\<lambda>i. int i + 1) [0..<length ?new]"
    using map_enumerate_index [of "\<lambda>i. int i + 1" 0 ?new] by simp
  also have "\<dots> = map int (map Suc [0..<length ?new])"
    by simp
  also have "\<dots> = map int [1..<Suc (length ?new)]"
    by (simp only: map_Suc_upt One_nat_def)
  finally show ?thesis by (simp only: len)
qed

lemma numbered_removeStep: "numbered (removeStep index steps)"
  unfolding numbered_def by (rule step_numbers_removeStep)

lemma numbered_addStep: "numbered steps \<Longrightarrow> numbered (addStep steps)"
  by (simp add: numbered_def addStep_def)

lemma addStep_appends:
  "\<exists>new. addStep steps = steps @ [new] \<and> step_number new = int (length steps) + 1"
  by (simp add: addStep_def)

lemma length_filter_index:
  "length (filter (\<lambda>(i, _). int i \<noteq> index) (enumerate n xs)) =
     (if int n \<le> index \<and> index < int (n + length xs) then length xs - 1 else length xs)"
proof (induction xs arbitrary: n)
  case Nil
  then show ?case by simp
next
  case (Cons x xs)
  show ?case using Cons.IH [of "Suc n"] by (auto split: if_splits)
qed

lemma length_removeStep:
  "length (removeStep index steps) =
     (if 0 \<le> index \<and> index < int (length steps) then length steps - 1 else length steps)"
  using length_filter_index [of index 0 steps] by (simp add: removeStep_def Let_def)

text \<open>
  C8. The initial list is one step with number 1. If the steps are numbered 1, 2, ..., n
  in list order, then \<open>addStep\<close> appends one step with number n + 1 and the list is
  numbered again, and \<open>removeStep\<close> at any index gives a numbered list too; it drops one
  step when the index is in range and none otherwise.
\<close>

theorem step_numbering_invariant:
  "numbered initial_steps \<and> map step_number initial_steps = [1]
   \<and> (numbered steps \<longrightarrow>
        numbered (addStep steps) \<and> numbered (removeStep index steps)
        \<and> (\<exists>new. addStep steps = steps @ [new] \<and> step_number new = int (length steps) + 1)
        \<and> length (removeStep index steps) =
            (if 0 \<le> index \<and> index < int (length steps) then length steps - 1 else length steps))"
proof (intro conjI impI)
  show "numbered initial_steps" by (simp add: numbered_def initial_steps_def)
  show "map step_number initial_steps = [1]" by (simp add: initial_steps_def)
  show "numbered (removeStep index steps)" by (rule numbered_removeStep)
  show "\<exists>new. addStep steps = steps @ [new] \<and> step_number new = int (length steps) + 1"
    by (rule addStep_appends)
  show "length (removeStep index steps) =
            (if 0 \<le> index \<and> index < int (length steps) then length steps - 1 else length steps)"
    by (rule length_removeStep)
next
  assume "numbered steps"
  then show "numbered (addStep steps)" by (rule numbered_addStep)
qed

theorem step_numbering_invariant_witness:
  "numbered (addStep initial_steps)
   \<and> map step_number (addStep (addStep initial_steps)) = [1, 2, 3]
   \<and> map step_number (removeStep 0 (addStep (addStep initial_steps))) = [1, 2]
   \<and> map message_type (removeStep 0 (addStep (addStep initial_steps))) = [Sms, Sms]
   \<and> numbered (removeStep 0 (addStep (addStep initial_steps)))"
proof -
  note T0 = step_numbering_invariant [of initial_steps 0]
  from T0 have n1: "numbered (addStep initial_steps)" by blast
  note T1 = step_numbering_invariant [of "addStep initial_steps" 0]
  from T1 n1 have n2: "numbered (addStep (addStep initial_steps))" by blast
  note T2 = step_numbering_invariant [of "addStep (addStep initial_steps)" 0]
  from T2 n2 have n3: "numbered (removeStep 0 (addStep (addStep initial_steps)))" by blast
  have l2: "length (addStep (addStep initial_steps)) = 3"
    by (simp add: addStep_def initial_steps_def)
  from T2 n2 l2 have l3: "length (removeStep 0 (addStep (addStep initial_steps))) = 2" by simp
  from n2 l2 have s2: "map step_number (addStep (addStep initial_steps)) = [1, 2, 3]"
    by (simp add: numbered_def upt_rec)
  from n3 l3 have s3: "map step_number (removeStep 0 (addStep (addStep initial_steps))) = [1, 2]"
    by (simp add: numbered_def upt_rec)
  have m: "map message_type (removeStep 0 (addStep (addStep initial_steps))) = [Sms, Sms]"
    by (simp add: removeStep_def addStep_def initial_steps_def enumerate_eq_zip upt_rec)
  from n1 s2 s3 m n3 show ?thesis by (intro conjI)
qed

lemma campaign_of_new_rows:
  "\<forall>r\<in>set (stepsToInsert campaignId steps). get_prop r ''campaign_id'' = Str campaignId"
  by (simp add: stepsToInsert_def get_prop_def)

lemma stored_sequence_append:
  "stored_sequence c (xs @ ys) = stored_sequence c xs @ stored_sequence c ys"
  by (simp add: stored_sequence_def)

lemma stored_sequence_new:
  "stored_sequence campaignId (stepsToInsert campaignId steps) = stepsToInsert campaignId steps"
  using campaign_of_new_rows [of campaignId steps] by (simp add: stored_sequence_def)

lemma stored_sequence_deleted:
  "stored_sequence campaignId (db_delete None ''campaign_id'' (Str campaignId) tbl) = []"
  by (simp add: stored_sequence_def db_delete_def)

lemma trace_saveSequence:
  "fst (saveSequence (Some u) campaignId steps deleteAnswer insertAnswer tbl) =
     [Db_delete ''campaign_sequences'' [(''campaign_id'', Str campaignId)],
      Db_insert ''campaign_sequences'' (stepsToInsert campaignId steps)]"
  by (cases insertAnswer) (simp_all add: saveSequence_def Let_def)

lemma saveSequence_replaces:
  "saveSequence (Some u) campaignId steps None None tbl = (tr, tbl', saved) \<Longrightarrow>
     saved \<and> stored_sequence campaignId tbl' = stepsToInsert campaignId steps"
  by (auto simp: saveSequence_def Let_def db_insert_def stored_sequence_append
        stored_sequence_deleted stored_sequence_new)

lemma saveSequence_insert_fails:
  "saveSequence (Some u) campaignId steps None (Some m) tbl = (tr, tbl', saved) \<Longrightarrow>
     \<not> saved \<and> stored_sequence campaignId tbl' = []"
  by (auto simp: saveSequence_def Let_def db_insert_def stored_sequence_deleted)

text \<open>
  C9. \<open>saveSequence\<close> issues the delete for the campaign and then the insert of one row per
  step. When both are answered without error the stored sequence is exactly the rows of
  the current steps (\<open>saveSequence_replaces\<close>), and when the delete succeeds and the insert
  fails nothing is stored (\<open>saveSequence_insert_fails\<close>). The answer of the delete is not
  looked at, though: when the delete fails and the insert succeeds, the handler reaches
  \<open>onSave\<close> while the table holds the old row of the campaign and the new one.
\<close>

theorem saveSequence_keeps_rows_of_failed_delete:
  "saveSequence (Some ex_user) ''c1'' initial_steps (Some ''fetch failed'') None [ex_old_row] =
     ([Db_delete ''campaign_sequences'' [(''campaign_id'', Str ''c1'')],
       Db_insert ''campaign_sequences'' (stepsToInsert ''c1'' initial_steps)],
      ex_old_row # stepsToInsert ''c1'' initial_steps,
      True)
   \<and> stored_sequence ''c1'' (ex_old_row # stepsToInsert ''c1'' initial_steps) =
       ex_old_row # stepsToInsert ''c1'' initial_steps
   \<and> ex_old_row # stepsToInsert ''c1'' initial_steps \<noteq> stepsToInsert ''c1'' initial_steps"
  by (simp add: saveSequence_def Let_def db_delete_def db_insert_def stored_sequence_def
        ex_old_row_def stepsToInsert_def initial_steps_def get_prop_def)

section \<open>Mutations and re-fetches\<close>

lemma trace_fetchCampaigns:
  "fst (fetchCampaigns (Some u) answer st) = [Db_select ''campaigns'' [(''user_id'', get_prop u ''id'')]]"
  by (simp add: fetchCampaigns_def)

lemma trace_fetchExistingLeads:
  "campaignId \<noteq> [] \<Longrightarrow>
     fst (fetchExistingLeads (Some u) campaignId answer st) =
       [Db_select ''uploaded_leads'' [(''campaign_id'', Str campaignId), (''user_id'', get_prop u ''id'')]]"
  by (simp add: fetchExistingLeads_def)

lemma trace_handleCreateCampaign:
  "fst (handleCreateCampaign (Some u) None answer st) =
     [Db_insert ''campaigns'' [spread (formData_list st) [(''user_id'', get_prop u ''id'')]],
      Db_select ''campaigns'' [(''user_id'', get_prop u ''id'')]]"
  by (simp add: handleCreateCampaign_def Let_def trace_fetchCampaigns)

lemma trace_handleDeleteCampaign:
  "fst (handleDeleteCampaign (Some u) True campaignId None answer st) =
     [Db_delete ''campaigns'' [(''id'', Str campaignId)],
      Db_select ''campaigns'' [(''user_id'', get_prop u ''id'')]]"
  by (simp add: handleDeleteCampaign_def Let_def trace_fetchCampaigns)

lemma trace_deleteLead:
  "campaignId \<noteq> [] \<Longrightarrow>
     fst (deleteLead (Some u) campaignId True leadId None answer st) =
       [Db_delete ''uploaded_leads'' [(''id'', Str leadId)],
        Db_select ''uploaded_leads'' [(''campaign_id'', Str campaignId), (''user_id'', get_prop u ''id'')]]"
  by (simp add: deleteLead_def Let_def trace_fetchExistingLeads)

lemma refetched_handleFileUpload:
  "refetched (fst (handleFileUpload user campaignId None answer st))"
  by (cases "csvFile st"; cases user)
     (simp_all add: trace_handleFileUpload split: sum.splits)

lemma refetched_handleCreateCampaign:
  "refetched (fst (handleCreateCampaign user None answer st))"
  by (cases user) (simp_all add: trace_handleCreateCampaign, simp add: handleCreateCampaign_def)

lemma trace_handleSubmit:
  "fst (handleSubmit ident user error st) =
     (case (ident, user) of
        (Some i, Some u) \<Rightarrow>
          if i = [] then []
          else [Db_update ''campaigns'' (formData st) [(''id'', Str i), (''user_id'', get_prop u ''id'')]]
      | _ \<Rightarrow> [])"
  by (cases ident; cases user; cases error) (simp_all add: handleSubmit_def Let_def)

lemma trace_handlePublish:
  "fst (handlePublish ident user error st) =
     (case (ident, user) of
        (Some i, Some u) \<Rightarrow>
          if i = [] then []
          else [Db_update ''campaigns'' [(''status'', Str ''active'')]
                  [(''id'', Str i), (''user_id'', get_prop u ''id'')]]
      | _ \<Rightarrow> [])"
  by (cases ident; cases user; cases error) (simp_all add: handlePublish_def Let_def)

lemma no_select_handleSubmit: "\<not> list_ex is_select (fst (handleSubmit ident user error st))"
  by (cases ident; cases user) (simp_all add: trace_handleSubmit)

lemma no_select_handlePublish: "\<not> list_ex is_select (fst (handlePublish ident user error st))"
  by (cases ident; cases user) (simp_all add: trace_handlePublish)

lemma state_handlePublish:
  "i \<noteq> [] \<Longrightarrow>
     campaign (snd (handlePublish (Some i) (Some u) None st)) =
       map_option (AList.update ''status'' (Str ''active'')) (campaign st)
     \<and> formData (snd (handlePublish (Some i) (Some u) None st)) =
         AList.update ''status'' (Str ''active'') (formData st)
     \<and> uploadResult (snd (handlePublish (Some i) (Some u) None st)) =
         Some \<lparr>success = True, message = ''Campaign published successfully!'',
               leadsCount = None, errors = None\<rparr>"
  by (simp add: handlePublish_def Let_def)

lemma state_handleSubmit:
  "i \<noteq> [] \<Longrightarrow>
     uploadResult (snd (handleSubmit (Some i) (Some u) None st)) =
       Some \<lparr>success = True, message = ''Campaign updated successfully!'',
             leadsCount = None, errors = None\<rparr>
     \<and> campaign (snd (handleSubmit (Some i) (Some u) None st)) = campaign st
     \<and> formData (snd (handleSubmit (Some i) (Some u) None st)) = formData st"
  by (simp add: handleSubmit_def Let_def)

text \<open>
  C7, as stated, fails in \<open>EditCampaign\<close>: for a signed-in user and campaign \<open>c1\<close>, a
  successful \<open>handleSubmit\<close> and a successful \<open>handlePublish\<close> each make one update call
  and no select after it.
\<close>

theorem update_and_publish_do_not_refetch:
  "uploadResult (snd (handleSubmit (Some ''c1'') (Some ex_user) None ex_edit_state)) =
     Some \<lparr>success = True, message = ''Campaign updated successfully!'',
           leadsCount = None, errors = None\<rparr>
   \<and> fst (handleSubmit (Some ''c1'') (Some ex_user) None ex_edit_state) =
       [Db_update ''campaigns'' (formData ex_edit_state) [(''id'', Str ''c1''), (''user_id'', Str ''u1'')]]
   \<and> \<not> refetched (fst (handleSubmit (Some ''c1'') (Some ex_user) None ex_edit_state))
   \<and> uploadResult (snd (handlePublish (Some ''c1'') (Some ex_user) None ex_edit_state)) =
       Some \<lparr>success = True, message = ''Campaign published successfully!'',
             leadsCount = None, errors = None\<rparr>
   \<and> fst (handlePublish (Some ''c1'') (Some ex_user) None ex_edit_state) =
       [Db_update ''campaigns'' [(''status'', Str ''active'')] [(''id'', Str ''c1''), (''user_id'', Str ''u1'')]]
   \<and> \<not> refetched (fst (handlePublish (Some ''c1'') (Some ex_user) None ex_edit_state))"
  by (simp add: trace_handleSubmit trace_handlePublish state_handleSubmit state_handlePublish
        ex_user_def get_prop_def)

text \<open>
  C7, amended. For a signed-in user, a successful create or delete in \<open>Campaigns\<close> is
  followed by the select of the user's campaigns, and in \<open>UploadLeadsTab\<close> (with a
  campaign id) a successful upload or delete of a lead is followed by the select of the
  campaign's leads. \<open>handleSubmit\<close> and \<open>handlePublish\<close> of \<open>EditCampaign\<close> never select:
  each makes its one update call, and \<open>handlePublish\<close> then sets the status of the local
  campaign and of the form to \<open>active\<close>.
\<close>

theorem refetch_after_mutation:
  "(user = Some u \<longrightarrow>
      fst (handleCreateCampaign user None answer cst) =
        [Db_insert ''campaigns'' [spread (formData_list cst) [(''user_id'', get_prop u ''id'')]],
         Db_select ''campaigns'' [(''user_id'', get_prop u ''id'')]]
      \<and> fst (handleDeleteCampaign user True campaignId None answer cst) =
          [Db_delete ''campaigns'' [(''id'', Str campaignId)],
           Db_select ''campaigns'' [(''user_id'', get_prop u ''id'')]]
      \<and> refetched (fst (handleCreateCampaign user None answer cst))
      \<and> refetched (fst (handleDeleteCampaign user True campaignId None answer cst)))
   \<and> (user = Some u \<and> campaignId \<noteq> [] \<longrightarrow>
        fst (deleteLead user campaignId True leadId None answer st) =
          [Db_delete ''uploaded_leads'' [(''id'', Str leadId)],
           Db_select ''uploaded_leads'' [(''campaign_id'', Str campaignId), (''user_id'', get_prop u ''id'')]]
        \<and> refetched (fst (deleteLead user campaignId True leadId None answer st)))
   \<and> (Db_insert tbl rws \<in> set (fst (handleFileUpload user campaignId None answer st)) \<longrightarrow>
        (\<exists>w. user = Some w \<and>
           fst (handleFileUpload user campaignId None answer st) =
             [Db_insert tbl rws,
              Db_select ''uploaded_leads'' [(''campaign_id'', Str campaignId), (''user_id'', get_prop w ''id'')]]))
   \<and> refetched (fst (handleFileUpload user campaignId None answer st))
   \<and> \<not> list_ex is_select (fst (handleSubmit ident user error est))
   \<and> \<not> list_ex is_select (fst (handlePublish ident user error est))
   \<and> (ident = Some i \<and> i \<noteq> [] \<and> user = Some u \<longrightarrow>
        fst (handleSubmit ident user None est) =
          [Db_update ''campaigns'' (formData est) [(''id'', Str i), (''user_id'', get_prop u ''id'')]]
        \<and> fst (handlePublish ident user None est) =
            [Db_update ''campaigns'' [(''status'', Str ''active'')]
               [(''id'', Str i), (''user_id'', get_prop u ''id'')]]
        \<and> campaign (snd (handlePublish ident user None est)) =
            map_option (AList.update ''status'' (Str ''active'')) (campaign est)
        \<and> formData (snd (handlePublish ident user None est)) =
            AList.update ''status'' (Str ''active'') (formData est))"
proof (intro conjI impI)
  show "refetched (fst (handleFileUpload user campaignId None answer st))"
    by (rule refetched_handleFileUpload)
  show "\<not> list_ex is_select (fst (handleSubmit ident user error est))"
    by (rule no_select_handleSubmit)
  show "\<not> list_ex is_select (fst (handlePublish ident user error est))"
    by (rule no_select_handlePublish)
next
  assume "user = Some u"
  then show "fst (handleCreateCampaign user None answer cst) =
        [Db_insert ''campaigns'' [spread (formData_list cst) [(''user_id'', get_prop u ''id'')]],
         Db_select ''campaigns'' [(''user_id'', get_prop u ''id'')]]"
    by (simp add: trace_handleCreateCampaign)
next
  assume "user = Some u"
  then show "fst (handleDeleteCampaign user True campaignId None answer cst) =
          [Db_delete ''campaigns'' [(''id'', Str campaignId)],
           Db_select ''campaigns'' [(''user_id'', get_prop u ''id'')]]"
    by (simp add: trace_handleDeleteCampaign)
next
  assume "user = Some u"
  then show "refetched (fst (handleCreateCampaign user None answer cst))"
    by (simp add: trace_handleCreateCampaign)
next
  assume "user = Some u"
  then show "refetched (fst (handleDeleteCampaign user True campaignId None answer cst))"
    by (simp add: trace_handleDeleteCampaign)
next
  assume "user = Some u \<and> campaignId \<noteq> []"
  then show "fst (deleteLead user campaignId True leadId None answer st) =
          [Db_delete ''uploaded_leads'' [(''id'', Str leadId)],
           Db_select ''uploaded_leads'' [(''campaign_id'', Str campaignId), (''user_id'', get_prop u ''id'')]]"
    by (simp add: trace_deleteLead)
next
  assume "user = Some u \<and> campaignId \<noteq> []"
  then show "refetched (fst (deleteLead user campaignId True leadId None answer st))"
    by (simp add: trace_deleteLead)
next
  assume "Db_insert tbl rws \<in> set (fst (handleFileUpload user campaignId None answer st))"
  then show "\<exists>w. user = Some w \<and>
           fst (handleFileUpload user campaignId None answer st) =
             [Db_insert tbl rws,
              Db_select ''uploaded_leads'' [(''campaign_id'', Str campaignId), (''user_id'', get_prop w ''id'')]]"
    by (cases "csvFile st"; cases user)
       (auto simp: trace_handleFileUpload split: sum.splits if_splits)
next
  assume a: "ident = Some i \<and> i \<noteq> [] \<and> user = Some u"
  then show "fst (handleSubmit ident user None est) =
          [Db_update ''campaigns'' (formData est) [(''id'', Str i), (''user_id'', get_prop u ''id'')]]"
    by (simp add: trace_handleSubmit)
  from a show "fst (handlePublish ident user None est) =
            [Db_update ''campaigns'' [(''status'', Str ''active'')]
               [(''id'', Str i), (''user_id'', get_prop u ''id'')]]"
    by (simp add: trace_handlePublish)
  from a show "campaign (snd (handlePublish ident user None est)) =
            map_option (AList.update ''status'' (Str ''active'')) (campaign est)"
    by (simp add: state_handlePublish)
  from a show "formData (snd (handlePublish ident user None est)) =
            AList.update ''status'' (Str ''active'') (formData est)"
    by (simp add: state_handlePublish)
qed

theorem refetch_after_mutation_witness:
  "fst (handleCreateCampaign (Some ex_user) None (Select_data None) ex_list_state) =
     [Db_insert ''campaigns''
        [[(''user_id'', Str ''u1''), (''offer'', Str ''Demo''), (''calendar_url'', Str []),
          (''goal'', Str []), (''status'', Str ''draft'')]],
      Db_select ''campaigns'' [(''user_id'', Str ''u1'')]]
   \<and> refetched (fst (handleDeleteCampaign (Some ex_user) True ''c1'' None (Select_data None) ex_list_state))
   \<and> Some ex_user = Some ex_user \<and> ''c1'' \<noteq> []
   \<and> fst (deleteLead (Some ex_user) ''c1'' True ''lead-7'' None (Select_data None) ex_tab_state) =
       [Db_delete ''uploaded_leads'' [(''id'', Str ''lead-7'')],
        Db_select ''uploaded_leads'' [(''campaign_id'', Str ''c1''), (''user_id'', Str ''u1'')]]
   \<and> Db_insert ''uploaded_leads'' [ex_row]
        \<in> set (fst (handleFileUpload (Some ex_user) ''c1'' None (Select_data None) ex_tab_state))
   \<and> fst (handleFileUpload (Some ex_user) ''c1'' None (Select_data None) ex_tab_state) =
       [Db_insert ''uploaded_leads'' [ex_row],
        Db_select ''uploaded_leads'' [(''campaign_id'', Str ''c1''), (''user_id'', Str ''u1'')]]
   \<and> fst (handlePublish (Some ''c1'') (Some ex_user) None ex_edit_state) =
       [Db_update ''campaigns'' [(''status'', Str ''active'')] [(''id'', Str ''c1''), (''user_id'', Str ''u1'')]]
   \<and> campaign (snd (handlePublish (Some ''c1'') (Some ex_user) None ex_edit_state)) =
       Some [(''id'', Str ''c1''), (''status'', Str ''active'')]"
proof -
  note T = refetch_after_mutation
    [where user = "Some ex_user" and u = ex_user and answer = "Select_data None"
       and cst = ex_list_state and campaignId = "''c1''" and leadId = "''lead-7''"
       and st = ex_tab_state and tbl = "''uploaded_leads''" and rws = "[ex_row]"
       and ident = "Some ''c1''" and i = "''c1''" and est = ex_edit_state and error = None]
  have uid: "get_prop ex_user ''id'' = Str ''u1''"
    by (simp add: ex_user_def get_prop_def)
  have sp: "spread (formData_list ex_list_state) [(''user_id'', Str ''u1'')] =
      [(''user_id'', Str ''u1''), (''offer'', Str ''Demo''), (''calendar_url'', Str []),
       (''goal'', Str []), (''status'', Str ''draft'')]"
    by (simp add: spread_def ex_list_state_def)
  have g1: "Some ex_user = Some ex_user" by simp
  have g2: "Some ex_user = Some ex_user \<and> ''c1'' \<noteq> []" by simp
  have g3: "Some ''c1'' = Some ''c1'' \<and> ''c1'' \<noteq> [] \<and> Some ex_user = Some ex_user" by simp
  have ins: "Db_insert ''uploaded_leads'' [ex_row]
        \<in> set (fst (handleFileUpload (Some ex_user) ''c1'' None (Select_data None) ex_tab_state))"
    by (simp add: ex_trace_tab)
  note A = T [THEN conjunct1, rule_format, OF g1]
  note B = T [THEN conjunct2, THEN conjunct1, rule_format, OF g2]
  note C = T [THEN conjunct2, THEN conjunct2, THEN conjunct1, rule_format, OF ins]
  note D = T [THEN conjunct2, THEN conjunct2, THEN conjunct2, THEN conjunct2, THEN conjunct2,
              THEN conjunct2, rule_format, OF g3]
  from A uid sp
  have a: "fst (handleCreateCampaign (Some ex_user) None (Select_data None) ex_list_state) =
     [Db_insert ''campaigns''
        [[(''user_id'', Str ''u1''), (''offer'', Str ''Demo''), (''calendar_url'', Str []),
          (''goal'', Str []), (''status'', Str ''draft'')]],
      Db_select ''campaigns'' [(''user_id'', Str ''u1'')]]"
    by simp
  from A have a': "refetched (fst (handleDeleteCampaign (Some ex_user) True ''c1'' None (Select_data None) ex_list_state))"
    by blast
  from B uid
  have b: "fst (deleteLead (Some ex_user) ''c1'' True ''lead-7'' None (Select_data None) ex_tab_state) =
       [Db_delete ''uploaded_leads'' [(''id'', Str ''lead-7'')],
        Db_select ''uploaded_leads'' [(''campaign_id'', Str ''c1''), (''user_id'', Str ''u1'')]]"
    by simp
  from C uid
  have c: "fst (handleFileUpload (Some ex_user) ''c1'' None (Select_data None) ex_tab_state) =
       [Db_insert ''uploaded_leads'' [ex_row],
        Db_select ''uploaded_leads'' [(''campaign_id'', Str ''c1''), (''user_id'', Str ''u1'')]]"
    by auto
  from D uid
  have d: "fst (handlePublish (Some ''c1'') (Some ex_user) None ex_edit_state) =
       [Db_update ''campaigns'' [(''status'', Str ''active'')] [(''id'', Str ''c1''), (''user_id'', Str ''u1'')]]"
    by simp
  from D
  have e: "campaign (snd (handlePublish (Some ''c1'') (Some ex_user) None ex_edit_state)) =
       Some [(''id'', Str ''c1''), (''status'', Str ''active'')]"
    by (simp add: ex_edit_state_def ex_campaign_def)
  from a a' g2 [THEN conjunct1] g2 [THEN conjunct2] b ins c d e show ?thesis by (intro conjI)
qed

end
